theory Spec2Isabelle
  imports Complex_Main
begin

section \<open>Values, arrays and errors\<close>

text \<open>
  The integrators of \<^verbatim>\<open>sdeint/integrate.py\<close> work on numpy arrays of floating point or
  complex numbers. Numbers are modelled as exact complex numbers (a real number is a
  complex number with imaginary part 0), times and Wiener increments as exact reals:
  rounding, overflow and NaN are outside the model. What the code does with the element
  type of an array (\<^verbatim>\<open>dtype\<close>) is modelled by \<open>astype\<close>.

  A value handed to or returned by a user function is a number or a (nested) array.
\<close>

type_synonym vec = "complex list"
type_synonym mat = "complex list list"
type_synonym ten = "complex list list list"

datatype pyval = Number complex | Array "pyval list"

text \<open>\<^verbatim>\<open>np.shape(v)\<close>, \<^verbatim>\<open>v.ndim\<close> (arrays are taken to be rectangular).\<close>

fun shape_of :: "pyval \<Rightarrow> nat list" where
  "shape_of (Number x) = []"
| "shape_of (Array []) = [0]"
| "shape_of (Array (v # vs)) = Suc (length vs) # shape_of v"

definition ndim :: "pyval \<Rightarrow> nat" where
  "ndim v = length (shape_of v)"

text \<open>Reading a value as a number, a 1-D, 2-D or 3-D array, and back.\<close>

fun num_of :: "pyval \<Rightarrow> complex" where
  "num_of (Number x) = x"
| "num_of (Array vs) = 0"

fun items :: "pyval \<Rightarrow> pyval list" where
  "items (Number x) = []"
| "items (Array vs) = vs"

definition vec_of :: "pyval \<Rightarrow> vec" where
  "vec_of v = map num_of (items v)"

definition mat_of :: "pyval \<Rightarrow> mat" where
  "mat_of v = map vec_of (items v)"

definition ten_of :: "pyval \<Rightarrow> ten" where
  "ten_of v = map mat_of (items v)"

definition Vec :: "vec \<Rightarrow> pyval" where
  "Vec xs = Array (map Number xs)"

definition Mat :: "mat \<Rightarrow> pyval" where
  "Mat rows = Array (map Vec rows)"

definition Ten :: "ten \<Rightarrow> pyval" where
  "Ten ms = Array (map Mat ms)"

text \<open>
  A Python function of \<open>(y, t)\<close> with its \<^verbatim>\<open>__name__\<close>. User functions are taken to
  return a value (they do not raise).
\<close>

record pyfn =
  fn_name :: string
  call :: "pyval \<Rightarrow> real \<Rightarrow> pyval"

text \<open>
  The diffusion argument \<open>G\<close>: one function, or a sequence whose entries are functions
  (or something that is not callable, \<open>None\<close> here).
\<close>

datatype Garg = GFun pyfn | GSeq "pyfn option list"

text \<open>The element types of arrays, and the Python types of plain numeric scalars.\<close>

datatype dtype = BoolT | Int64 | Float64 | Complex128

datatype pytype = PyBool | PyInt | PyFloat | PyComplex

datatype y0arg = Y0Scalar pytype complex | Y0Array dtype vec

text \<open>An optional array argument may be an object without a \<^verbatim>\<open>shape\<close> attribute.\<close>

datatype 'a arrarg = NoShapeAttr | NdArray 'a

text \<open>The messages of \<^verbatim>\<open>SDEValueError\<close>, with the numbers they are formatted with.\<close>

datatype msg =
    EquallySpaced            \<comment> \<open>Currently time steps must be equally spaced.\<close>
  | IncompatibleShapes       \<comment> \<open>y0 and f have incompatible shapes.\<close>
  | GShape nat               \<comment> \<open>y0 has length d. So G must either be a single function returning
                                 a matrix of shape (d, m), or else a list of m separate functions ...\<close>
  | DWShape nat              \<comment> \<open>From function G, it seems m==.. the optional parameter dW must be
                                 an array of shape (len(tspan)-1, m) ...\<close>
  | IJShape nat              \<comment> \<open>From function G, it seems m==.. the optional parameter I or J must
                                 be an array of shape (len(tspan)-1, m, m) ...\<close>
  | HFirstDim nat            \<comment> \<open>y0 has length d, but this does not match the first dimension of H\<close>
  | HLastTwo nat nat         \<comment> \<open>The last two dimensions of H should match, but they are .., ..\<close>
  | HNotM nat                \<comment> \<open>The last two dimensions of H match, but are not equal to m==..\<close>
  | GNotFunction             \<comment> \<open>G should be a function returning a d x m matrix.\<close>
  | NoComplex                \<comment> \<open>stratKP2iS() can't yet handle complex variables.\<close>

datatype error =
    SDEValueError msg
  | Error                    \<comment> \<open>stratKP2iS() requires package scipy to be installed.\<close>
  | NotImplementedError      \<comment> \<open>Currently H must be callable if used.\<close>
  | RuntimeError real string \<comment> \<open>the solver failed at a time, with its message\<close>
  | AssertionError
  | TypeError
  | ValueError
  | AttributeError
  | IndexError
  | ZeroDivisionError

definition then_do :: "error + 'a \<Rightarrow> ('a \<Rightarrow> error + 'b) \<Rightarrow> error + 'b" where
  "then_do r k = (case r of Inl e \<Rightarrow> Inl e | Inr v \<Rightarrow> k v)"

text \<open>\<^verbatim>\<open>for n in ns: s = body(n, s)\<close>, stopping at the first exception.\<close>

fun for_loop :: "nat list \<Rightarrow> (nat \<Rightarrow> 's \<Rightarrow> error + 's) \<Rightarrow> 's \<Rightarrow> error + 's" where
  "for_loop [] body s = Inr s"
| "for_loop (n # ns) body s =
     (case body n s of Inl e \<Rightarrow> Inl e | Inr s' \<Rightarrow> for_loop ns body s')"

subsection \<open>numpy operations\<close>

text \<open>
  Element-wise operations are written for operands of equal shape, which is what the
  validation at \<open>(y0, t0)\<close> establishes once; numpy's broadcasting of other shapes is
  not modelled. Only arrays that the code allocates with an element type (\<open>y\<close>,
  \<open>norms\<close>, the buffer \<open>Gn\<close>) convert what is stored into them; the element types
  of intermediate results are not tracked.
\<close>

definition vadd :: "vec \<Rightarrow> vec \<Rightarrow> vec" where
  "vadd a b = map2 (+) a b"

definition vsub :: "vec \<Rightarrow> vec \<Rightarrow> vec" where
  "vsub a b = map2 (-) a b"

definition vscale :: "vec \<Rightarrow> real \<Rightarrow> vec" where
  "vscale a h = map (\<lambda>x. x * of_real h) a"

definition vdiv :: "vec \<Rightarrow> real \<Rightarrow> vec" where
  "vdiv a r = map (\<lambda>x. x / of_real r) a"

definition vdot :: "vec \<Rightarrow> real list \<Rightarrow> complex" where
  "vdot r w = sum_list (map2 (\<lambda>g x. g * of_real x) r w)"

definition dot :: "mat \<Rightarrow> real list \<Rightarrow> vec" where
  "dot M w = map (\<lambda>r. vdot r w) M"

definition la_norm :: "vec \<Rightarrow> real" where
  "la_norm v = sqrt (sum_list (map (\<lambda>x. (cmod x)\<^sup>2) v))"

definition column :: "mat \<Rightarrow> nat \<Rightarrow> vec" where
  "column M k = map (\<lambda>r. r ! k) M"

text \<open>Storing a number into an array of a given element type.\<close>

definition trunc :: "real \<Rightarrow> int" where
  "trunc r = (if 0 \<le> r then \<lfloor>r\<rfloor> else \<lceil>r\<rceil>)"

fun astype :: "dtype \<Rightarrow> complex \<Rightarrow> complex" where
  "astype Complex128 z = z"
| "astype Float64 z = of_real (Re z)"
| "astype Int64 z = of_int (trunc (Re z))"
| "astype BoolT z = (if z = 0 then 0 else 1)"

text \<open>\<^verbatim>\<open>xs[i] = v\<close> with Python's indices: a negative index counts from the end.\<close>

definition setitem :: "'a list \<Rightarrow> int \<Rightarrow> 'a \<Rightarrow> error + 'a list" where
  "setitem xs i v =
     (let n = int (length xs); j = (if i < 0 then n + i else i)
      in if 0 \<le> j \<and> j < n then Inr (xs[nat j := v]) else Inl IndexError)"

text \<open>
  \<^verbatim>\<open>int(a/b)\<close> for integers \<open>a\<close>, \<open>b\<close> (Python 3): the true quotient, truncated
  towards zero.
\<close>

definition int_quot :: "int \<Rightarrow> int \<Rightarrow> error + int" where
  "int_quot a b =
     (if b = 0 then Inl ZeroDivisionError
      else Inr (sgn a * sgn b * (\<bar>a\<bar> div \<bar>b\<bar>)))"

text \<open>\<^verbatim>\<open>np.zeros((rows, d))\<close>.\<close>

definition zeros :: "int \<Rightarrow> nat \<Rightarrow> error + mat" where
  "zeros rows d = (if rows < 0 then Inl ValueError else Inr (replicate (nat rows) (replicate d 0)))"

definition zeros1 :: "int \<Rightarrow> error + vec" where
  "zeros1 rows = (if rows < 0 then Inl ValueError else Inr (replicate (nat rows) 0))"

text \<open>\<^verbatim>\<open>np.isclose(a, b)\<close> with numpy's default tolerances.\<close>

definition isclose :: "real \<Rightarrow> real \<Rightarrow> bool" where
  "isclose a b \<longleftrightarrow> \<bar>a - b\<bar> \<le> 1 / 10 ^ 8 + (1 / 10 ^ 5) * \<bar>b\<bar>"

definition diff :: "real list \<Rightarrow> real list" where
  "diff ts = map2 (\<lambda>a b. b - a) ts (tl ts)"

section \<open>The problem normalizer\<close>

text \<open>\<^verbatim>\<open>isinstance(y0, numbers.Integral)\<close>, \<^verbatim>\<open>np.dtype(type(y0))\<close>.\<close>

fun is_Integral :: "pytype \<Rightarrow> bool" where
  "is_Integral PyBool = True"
| "is_Integral PyInt = True"
| "is_Integral PyFloat = False"
| "is_Integral PyComplex = False"

fun np_dtype :: "pytype \<Rightarrow> dtype" where
  "np_dtype PyBool = BoolT"
| "np_dtype PyInt = Int64"
| "np_dtype PyFloat = Float64"
| "np_dtype PyComplex = Complex128"

definition numtype :: "pytype \<Rightarrow> dtype" where
  "numtype ty = (if is_Integral ty then Float64 else np_dtype ty)"

text \<open>
  The adapters of scalar equations. \<^verbatim>\<open>y[0]\<close> is read off a non-empty array; the adapters
  are applied to states of shape \<open>(1,)\<close> only.
\<close>

fun item0 :: "pyval \<Rightarrow> pyval" where
  "item0 (Array (v # vs)) = v"
| "item0 v = v"

definition make_vector_fn :: "pyfn \<Rightarrow> pyfn" where
  "make_vector_fn fn =
     \<lparr>fn_name = fn_name fn, call = (\<lambda>y t. Array [call fn (item0 y) t])\<rparr>"

definition make_matrix_fn :: "pyfn \<Rightarrow> pyfn" where
  "make_matrix_fn fn =
     \<lparr>fn_name = fn_name fn, call = (\<lambda>y t. Array [Array [call fn (item0 y) t]])\<rparr>"

fun is_Number :: "pyval \<Rightarrow> bool" where
  "is_Number (Number x) = True"
| "is_Number (Array vs) = False"

text \<open>\<^verbatim>\<open>len(v)\<close>.\<close>

fun len :: "pyval \<Rightarrow> error + nat" where
  "len (Number x) = Inl TypeError"
| "len (Array vs) = Inr (length vs)"

text \<open>Lines 88 to 108: a plain numeric scalar \<open>y0\<close>.\<close>

definition promote_scalar :: "pyfn \<Rightarrow> Garg \<Rightarrow> y0arg \<Rightarrow> real \<Rightarrow> error + (pyfn \<times> Garg \<times> dtype \<times> vec)" where
  "promote_scalar f G y0 t0 =
     (case y0 of
        Y0Array dt v \<Rightarrow> Inr (f, G, dt, v)
      | Y0Scalar ty x \<Rightarrow>
          (let y0' = [astype (numtype ty) x];
               f' = (if is_Number (call f (Number x) t0) then make_vector_fn f else f)
           in case G of
                GSeq gs \<Rightarrow> Inl TypeError
              | GFun g \<Rightarrow>
                  Inr (f', GFun (if is_Number (call g (Number x) t0) then make_matrix_fn g else g),
                       numtype ty, y0')))"

text \<open>
  Lines 117 to 135: the number \<open>m\<close> of Wiener processes, from \<open>G\<close>. Two cases that
  the values of the model do not tell apart: a \<open>Number\<close> is read as a plain Python number,
  without \<^verbatim>\<open>ndim\<close> (for a numpy scalar the source raises the \<^verbatim>\<open>SDEValueError\<close> of line
  121 instead); and an array with an empty first axis has no further axes here, so for
  the empty state (\<open>d = 0\<close>) no result of \<open>G\<close> has two dimensions.
\<close>

fun check_columns :: "pyfn option list \<Rightarrow> nat \<Rightarrow> vec \<Rightarrow> real \<Rightarrow> error + unit" where
  "check_columns [] d y0 t0 = Inr ()"
| "check_columns (None # gs) d y0 t0 = Inl (SDEValueError (GShape d))"
| "check_columns (Some g # gs) d y0 t0 =
     (if shape_of (call g (Vec y0) t0) \<noteq> [d] then Inl (SDEValueError (GShape d))
      else check_columns gs d y0 t0)"

definition check_G :: "Garg \<Rightarrow> nat \<Rightarrow> vec \<Rightarrow> real \<Rightarrow> error + nat" where
  "check_G G d y0 t0 =
     (case G of
        GFun g \<Rightarrow>
          (case call g (Vec y0) t0 of
             Number x \<Rightarrow> Inl AttributeError
           | Array vs \<Rightarrow>
               (let sh = shape_of (Array vs)
                in if length sh = 2 \<and> sh ! 0 = d then Inr (sh ! 1)
                   else Inl (SDEValueError (GShape d))))
      | GSeq gs \<Rightarrow> then_do (check_columns gs d y0 t0) (\<lambda>_. Inr (length gs)))"

text \<open>Lines 139 to 148: the shapes of \<open>dW\<close> and of \<open>I\<close> or \<open>J\<close>.\<close>

definition has_shape2 :: "'a list list \<Rightarrow> nat \<Rightarrow> nat \<Rightarrow> bool" where
  "has_shape2 a r c \<longleftrightarrow> length a = r \<and> list_all (\<lambda>row. length row = c) a"

definition has_shape3 :: "'a list list list \<Rightarrow> nat \<Rightarrow> nat \<Rightarrow> nat \<Rightarrow> bool" where
  "has_shape3 a r c1 c2 \<longleftrightarrow> length a = r \<and> list_all (\<lambda>M. has_shape2 M c1 c2) a"

definition check_dW :: "real list list arrarg option \<Rightarrow> nat \<Rightarrow> nat \<Rightarrow> error + unit" where
  "check_dW dW N m =
     (case dW of
        None \<Rightarrow> Inr ()
      | Some NoShapeAttr \<Rightarrow> Inl (SDEValueError (DWShape m))
      | Some (NdArray a) \<Rightarrow>
          if \<not> has_shape2 a (N - 1) m then Inl (SDEValueError (DWShape m)) else Inr ())"

definition check_IJ :: "real list list list arrarg option \<Rightarrow> nat \<Rightarrow> nat \<Rightarrow> error + unit" where
  "check_IJ IJ N m =
     (case IJ of
        None \<Rightarrow> Inr ()
      | Some NoShapeAttr \<Rightarrow> Inl (SDEValueError (IJShape m))
      | Some (NdArray a) \<Rightarrow>
          if \<not> has_shape3 a (N - 1) m m then Inl (SDEValueError (IJShape m)) else Inr ())"

text \<open>
  \<^verbatim>\<open>der(f, y, i, t, eps)\<close> and the closure \<^verbatim>\<open>H_num\<close> of \<^verbatim>\<open>gen_H_numerical(G, eps)\<close>:
  \<open>DG\<close> has shape \<open>(d, d, m)\<close>, the tensor product contracts the first axes of
  \<open>G(y,t)\<close> and \<open>DG\<close>, and the first two axes of the result are swapped.
\<close>

definition der :: "pyfn \<Rightarrow> vec \<Rightarrow> nat \<Rightarrow> real \<Rightarrow> real \<Rightarrow> mat" where
  "der g y i t eps =
     map (map (\<lambda>z. of_real (Im z / eps))) (mat_of (call g (Vec (y[i := y ! i + \<i> * of_real eps])) t))"

definition H_num :: "pyfn \<Rightarrow> real \<Rightarrow> vec \<Rightarrow> real \<Rightarrow> ten" where
  "H_num g eps y t =
     (let DG = map (\<lambda>i. der g y i t eps) [0..<length y];
          Gy = mat_of (call g (Vec y) t);
          m = (case Gy of [] \<Rightarrow> 0 | r # rs \<Rightarrow> length r)
      in map (\<lambda>j. map (\<lambda>a. map (\<lambda>k.
             sum_list (map (\<lambda>i. Gy ! i ! a * DG ! i ! j ! k) [0..<length y]))
           [0..<m]) [0..<m]) [0..<length y])"

definition gen_H_numerical :: "Garg \<Rightarrow> real \<Rightarrow> Garg \<times> real" where
  "gen_H_numerical G eps = (G, eps)"

text \<open>
  The correction tensor argument \<open>H\<close>: \<^verbatim>\<open>None\<close>, an object that is not callable, a
  user function, or the closure made by \<open>gen_H_numerical\<close> (which calls \<open>G\<close>, and so
  raises when \<open>G\<close> is a sequence).
\<close>

datatype Hfun = HNone | HOther | HUser pyfn | HNumerical "Garg \<times> real"

definition call_H :: "Hfun \<Rightarrow> vec \<Rightarrow> real \<Rightarrow> error + pyval" where
  "call_H H y t =
     (case H of
        HNone \<Rightarrow> Inl TypeError
      | HOther \<Rightarrow> Inl TypeError
      | HUser h \<Rightarrow> Inr (call h (Vec y) t)
      | HNumerical (G, eps) \<Rightarrow>
          (case G of GSeq gs \<Rightarrow> Inl TypeError | GFun g \<Rightarrow> Inr (Ten (H_num g eps y t))))"

text \<open>Lines 149 to 163: the correction tensor \<open>H\<close>.\<close>

definition check_Hfun :: "Hfun \<Rightarrow> nat \<Rightarrow> nat \<Rightarrow> vec \<Rightarrow> real \<Rightarrow> error + unit" where
  "check_Hfun H d m y0 t0 =
     (case H of
        HNone \<Rightarrow> Inr ()
      | HOther \<Rightarrow> Inl NotImplementedError
      | _ \<Rightarrow>
          then_do (call_H H y0 t0) (\<lambda>Htest.
          case Htest of
             Number x \<Rightarrow> Inl AttributeError
           | Array vs \<Rightarrow>
               (let sh = shape_of (Array vs)
                in if sh ! 0 \<noteq> d then Inl (SDEValueError (HFirstDim d))
                   else if length sh < 3 then Inl IndexError
                   else if sh ! 1 \<noteq> sh ! 2 then Inl (SDEValueError (HLastTwo (sh ! 1) (sh ! 2)))
                   else if sh ! 1 \<noteq> m then Inl (SDEValueError (HNotM d))
                   else Inr ())))"

record checked =
  c_d :: nat
  c_m :: nat
  c_f :: pyfn
  c_G :: Garg
  c_dtype :: dtype
  c_y0 :: vec
  c_tspan :: "real list"
  c_dW :: "real list list option"
  c_IJ :: "real list list list option"

fun the_array :: "'a arrarg option \<Rightarrow> 'a option" where
  "the_array None = None"
| "the_array (Some NoShapeAttr) = None"
| "the_array (Some (NdArray a)) = Some a"

definition check_args ::
  "pyfn \<Rightarrow> Garg \<Rightarrow> y0arg \<Rightarrow> real list \<Rightarrow> real list list arrarg option \<Rightarrow>
   real list list list arrarg option \<Rightarrow> Hfun \<Rightarrow> error + checked" where
  "check_args f G y0 tspan dW IJ H =
     (if length tspan < 2 then Inl ValueError
      else if \<not> isclose (fold min (tl (diff tspan)) (hd (diff tspan)))
                         (fold max (tl (diff tspan)) (hd (diff tspan)))
      then Inl (SDEValueError EquallySpaced)
      else
        then_do (promote_scalar f G y0 (tspan ! 0)) (\<lambda>(f, G, dt, y0).
        let d = length y0 in
        then_do (len (call f (Vec y0) (tspan ! 0))) (\<lambda>lf.
        if lf \<noteq> d then Inl (SDEValueError IncompatibleShapes)
        else
          then_do (check_G G d y0 (tspan ! 0)) (\<lambda>m.
          then_do (check_dW dW (length tspan) m) (\<lambda>_.
          then_do (check_IJ IJ (length tspan) m) (\<lambda>_.
          then_do (check_Hfun H d m y0 (tspan ! 0)) (\<lambda>_.
          Inr \<lparr>c_d = d, c_m = m, c_f = f, c_G = G, c_dtype = dt, c_y0 = y0,
               c_tspan = tspan, c_dW = the_array dW, c_IJ = the_array IJ\<rparr>)))))))"

section \<open>The integrators\<close>

text \<open>
  The Wiener increments and repeated integrals come from \<^verbatim>\<open>sdeint/wiener.py\<close>, which is
  not part of the sources at hand: \<^verbatim>\<open>deltaW(N - 1, m, h)\<close> is a parameter \<open>deltaW\<close> of
  each integrator (one realization of the random draw), and the repeated-integral method
  is the argument \<open>Imethod\<close> the source passes around.
\<close>

type_synonym wiener = "nat \<Rightarrow> nat \<Rightarrow> real \<Rightarrow> real list list"
type_synonym ijmethod = "real list list \<Rightarrow> real \<Rightarrow> real list list \<times> real list list list"

text \<open>\<^verbatim>\<open>int((n-1)/downsample)+1\<close>, used for \<^verbatim>\<open>N_record\<close> and for the row a step is stored in.\<close>

definition rec_index :: "int \<Rightarrow> int \<Rightarrow> error + int" where
  "rec_index n downsample = then_do (int_quot (n - 1) downsample) (\<lambda>q. Inr (q + 1))"

text \<open>\<^verbatim>\<open>type(y0[0])\<close>, the element type of the result.\<close>

definition elem_type :: "checked \<Rightarrow> error + dtype" where
  "elem_type c = (if c_y0 c = [] then Inl IndexError else Inr (c_dtype c))"

text \<open>Calling \<open>G\<close> or \<open>G[k]\<close>; a sequence is not callable, and an entry may not be.\<close>

definition call_G :: "Garg \<Rightarrow> vec \<Rightarrow> real \<Rightarrow> error + mat" where
  "call_G G y t = (case G of GFun g \<Rightarrow> Inr (mat_of (call g (Vec y) t)) | GSeq gs \<Rightarrow> Inl TypeError)"

definition call_f :: "pyfn \<Rightarrow> vec \<Rightarrow> real \<Rightarrow> vec" where
  "call_f f y t = vec_of (call f (Vec y) t)"

text \<open>\<^verbatim>\<open>if normalized: y /= la.norm(y)\<close>.\<close>

definition renormalize :: "bool \<Rightarrow> vec \<Rightarrow> vec" where
  "renormalize normalized y = (if normalized then vdiv y (la_norm y) else y)"

text \<open>
  \<^verbatim>\<open>if n % downsample == 0: y[int((n-1)/downsample)+1] = y_next\<close>; the row takes the
  element type of \<open>y\<close>.
\<close>

definition record_row :: "'a list \<Rightarrow> nat \<Rightarrow> int \<Rightarrow> 'a \<Rightarrow> error + 'a list" where
  "record_row y n downsample v =
     (if int n mod downsample = 0
      then then_do (rec_index (int n) downsample) (\<lambda>i. setitem y i v)
      else Inr y)"

subsection \<open>itoEuler\<close>

definition itoEuler_body ::
  "pyfn \<Rightarrow> Garg \<Rightarrow> real list \<Rightarrow> real list list \<Rightarrow> real \<Rightarrow> bool \<Rightarrow> int \<Rightarrow> dtype \<Rightarrow>
   nat \<Rightarrow> vec \<times> mat \<Rightarrow> error + vec \<times> mat" where
  "itoEuler_body f G tspan dW h normalized downsample dt n s =
     (case s of (y_next, y) \<Rightarrow>
        let tn = tspan ! n; yn = y_next; dWn = dW ! n in
        then_do (call_G G yn tn) (\<lambda>Gn.
        let y_next = renormalize normalized (vadd (vadd yn (vscale (call_f f yn tn) h)) (dot Gn dWn)) in
        then_do (record_row y n downsample (map (astype dt) y_next)) (\<lambda>y.
        Inr (y_next, y))))"

definition itoEuler ::
  "wiener \<Rightarrow> pyfn \<Rightarrow> Garg \<Rightarrow> y0arg \<Rightarrow> real list \<Rightarrow> real list list arrarg option \<Rightarrow> bool \<Rightarrow> int \<Rightarrow>
   error + mat" where
  "itoEuler deltaW f G y0 tspan dW normalized downsample =
     then_do (check_args f G y0 tspan dW None HNone) (\<lambda>c.
     let N = length tspan in
     then_do (rec_index (int N) downsample) (\<lambda>N_record.
     let h = (tspan ! (N - 1) - tspan ! 0) / real (N - 1) in
     then_do (elem_type c) (\<lambda>dt.
     then_do (zeros N_record (c_d c)) (\<lambda>y.
     let dW = (case c_dW c of None \<Rightarrow> deltaW (N - 1) (c_m c) h | Some a \<Rightarrow> a) in
     then_do (setitem y 0 (map (astype dt) (c_y0 c))) (\<lambda>y.
     then_do (for_loop [0..<N - 1]
                (itoEuler_body (c_f c) (c_G c) (c_tspan c) dW h normalized downsample dt) (y ! 0, y))
       (\<lambda>(y_next, y). Inr y))))))"

subsection \<open>itoImplicitEuler\<close>

text \<open>
  The closure \<^verbatim>\<open>implicit_step(yn, y_next, tn, dWn)\<close>. It reads the loop variable \<open>n\<close> and
  writes into \<open>norms\<close>; here it returns the new \<open>norms\<close> with its result.
\<close>

definition implicit_step ::
  "pyfn \<Rightarrow> Garg \<Rightarrow> real \<Rightarrow> bool \<Rightarrow> int \<Rightarrow> string \<Rightarrow> dtype \<Rightarrow> nat \<Rightarrow>
   vec \<Rightarrow> vec \<Rightarrow> real \<Rightarrow> real list \<Rightarrow> vec \<Rightarrow> error + vec \<times> vec" where
  "implicit_step f G h normalized downsample implicit_type dt n yn y_next tn dWn norms =
     then_do
       (if implicit_type = ''implicit''
        then then_do (call_G G y_next tn) (\<lambda>Gx.
               Inr (vadd (vadd yn (vscale (call_f f y_next tn) h)) (dot Gx dWn)))
        else if implicit_type = ''semi_implicit_drift''
        then then_do (call_G G yn tn) (\<lambda>Gx.
               Inr (vadd (vadd yn (vscale (call_f f y_next tn) h)) (dot Gx dWn)))
        else then_do (call_G G y_next tn) (\<lambda>Gx.
               Inr (vadd (vadd yn (vscale (call_f f yn tn) h)) (dot Gx dWn))))
       (\<lambda>y_next.
     let norm_next = la_norm y_next in
     then_do (record_row norms n downsample (astype dt (of_real norm_next))) (\<lambda>norms.
     Inr (if normalized then vdiv y_next norm_next else y_next, norms)))"

definition itoImplicitEuler_body ::
  "pyfn \<Rightarrow> Garg \<Rightarrow> real list \<Rightarrow> real list list \<Rightarrow> real \<Rightarrow> bool \<Rightarrow> int \<Rightarrow> string \<Rightarrow> dtype \<Rightarrow>
   nat \<Rightarrow> vec \<times> mat \<times> vec \<Rightarrow> error + vec \<times> mat \<times> vec" where
  "itoImplicitEuler_body f G tspan dW h normalized downsample implicit_type dt n s =
     (case s of (y_next, y, norms) \<Rightarrow>
        let tn = tspan ! n; yn = y_next; dWn = dW ! n;
            step = implicit_step f G h normalized downsample implicit_type dt n in
        then_do (step yn yn tn dWn norms) (\<lambda>(y_next, norms).
        then_do (step yn y_next tn dWn norms) (\<lambda>(y_next, norms).
        then_do (step yn y_next tn dWn norms) (\<lambda>(y_next, norms).
        then_do (record_row y n downsample (map (astype dt) y_next)) (\<lambda>y.
        Inr (y_next, y, norms))))))"

definition itoImplicitEuler ::
  "wiener \<Rightarrow> pyfn \<Rightarrow> Garg \<Rightarrow> y0arg \<Rightarrow> real list \<Rightarrow> real list list arrarg option \<Rightarrow> bool \<Rightarrow> int \<Rightarrow>
   string \<Rightarrow> error + mat \<times> vec" where
  "itoImplicitEuler deltaW f G y0 tspan dW normalized downsample implicit_type =
     then_do (check_args f G y0 tspan dW None HNone) (\<lambda>c.
     if implicit_type \<notin> set [''implicit'', ''semi_implicit_drift'', ''semi_implicit_diffusion'']
     then Inl AssertionError
     else
     let N = length tspan in
     then_do (rec_index (int N) downsample) (\<lambda>N_record.
     let h = (tspan ! (N - 1) - tspan ! 0) / real (N - 1) in
     then_do (elem_type c) (\<lambda>dt.
     then_do (zeros N_record (c_d c)) (\<lambda>y.
     then_do (zeros1 N_record) (\<lambda>norms.
     let dW = (case c_dW c of None \<Rightarrow> deltaW (N - 1) (c_m c) h | Some a \<Rightarrow> a) in
     then_do (setitem y 0 (map (astype dt) (c_y0 c))) (\<lambda>y.
     then_do (for_loop [0..<N - 1]
                (itoImplicitEuler_body (c_f c) (c_G c) (c_tspan c) dW h normalized downsample
                   implicit_type dt) (y ! 0, y, norms))
       (\<lambda>(y_next, y, norms). Inr (y, norms))))))))"

subsection \<open>itoQuasiImplicitEuler\<close>

text \<open>
  Line 367, \<^verbatim>\<open>[i for i in range(m) if i not in implicit_ports]\<close>: the test
  \<^verbatim>\<open>i not in None\<close> raises \<^verbatim>\<open>TypeError\<close> as soon as it is evaluated once.
\<close>

definition explicit_ports_of :: "nat \<Rightarrow> nat list option \<Rightarrow> error + nat list" where
  "explicit_ports_of m implicit_ports =
     (case implicit_ports of
        None \<Rightarrow> if m = 0 then Inr [] else Inl TypeError
      | Some ps \<Rightarrow> Inr (filter (\<lambda>i. i \<notin> set ps) [0..<m]))"

text \<open>\<^verbatim>\<open>Gn[:,ports]\<close> and \<^verbatim>\<open>dWn[ports]\<close>: an index beyond the axis raises.\<close>

definition take_cols :: "'a list list \<Rightarrow> nat list \<Rightarrow> error + 'a list list" where
  "take_cols M ports =
     (if list_ex (\<lambda>r. list_ex (\<lambda>p. length r \<le> p) ports) M then Inl IndexError
      else Inr (map (\<lambda>r. map (\<lambda>p. r ! p) ports) M))"

definition take_items :: "'a list \<Rightarrow> nat list \<Rightarrow> error + 'a list" where
  "take_items w ports =
     (if list_ex (\<lambda>p. length w \<le> p) ports then Inl IndexError
      else Inr (map (\<lambda>p. w ! p) ports))"

definition itoQuasiImplicitEuler_body ::
  "pyfn \<Rightarrow> Garg \<Rightarrow> real list \<Rightarrow> real list list \<Rightarrow> real \<Rightarrow> bool \<Rightarrow> int \<Rightarrow> nat list \<Rightarrow> nat list \<Rightarrow>
   dtype \<Rightarrow> nat \<Rightarrow> vec \<times> mat \<times> vec \<Rightarrow> error + vec \<times> mat \<times> vec" where
  "itoQuasiImplicitEuler_body f G tspan dW h normalized downsample explicit_ports implicit_ports dt n s =
     (case s of (y_next, y, norms) \<Rightarrow>
        let tn = tspan ! n; yn = y_next; dWn = dW ! n; fn = call_f f yn tn in
        then_do (call_G G yn tn) (\<lambda>Gn.
        then_do (take_cols Gn explicit_ports) (\<lambda>Ge.
        then_do (take_cols Gn implicit_ports) (\<lambda>Gi.
        then_do (take_items dWn explicit_ports) (\<lambda>dWn_explicit.
        then_do (take_items dWn implicit_ports) (\<lambda>dWn_implicit.
        let GedWn = dot Ge dWn_explicit; GidWn = dot Gi dWn_implicit;
            y_explicit_noise = vadd (vadd yn (vscale fn h)) GedWn;
            y_tilde = renormalize normalized (vadd y_explicit_noise GidWn) in
        then_do (call_G G y_tilde (tn + h)) (\<lambda>Gt.
        then_do (take_cols Gt implicit_ports) (\<lambda>Gti.
        let y_next = vadd y_explicit_noise (dot Gti dWn_implicit);
            norm_next = la_norm y_next in
        then_do (record_row norms n downsample (astype dt (of_real norm_next))) (\<lambda>norms.
        let y_next = (if normalized then vdiv y_next norm_next else y_next) in
        then_do (record_row y n downsample (map (astype dt) y_next)) (\<lambda>y.
        Inr (y_next, y, norms)))))))))))"

definition itoQuasiImplicitEuler ::
  "wiener \<Rightarrow> pyfn \<Rightarrow> Garg \<Rightarrow> y0arg \<Rightarrow> real list \<Rightarrow> real list list arrarg option \<Rightarrow> bool \<Rightarrow> int \<Rightarrow>
   nat list option \<Rightarrow> error + mat \<times> vec" where
  "itoQuasiImplicitEuler deltaW f G y0 tspan dW normalized downsample implicit_ports =
     then_do (check_args f G y0 tspan dW None HNone) (\<lambda>c.
     then_do (explicit_ports_of (c_m c) implicit_ports) (\<lambda>explicit_ports.
     let implicit_ports = (case implicit_ports of None \<Rightarrow> [] | Some ps \<Rightarrow> ps);
         N = length tspan in
     then_do (rec_index (int N) downsample) (\<lambda>N_record.
     let h = (tspan ! (N - 1) - tspan ! 0) / real (N - 1) in
     then_do (elem_type c) (\<lambda>dt.
     then_do (zeros N_record (c_d c)) (\<lambda>y.
     then_do (zeros1 N_record) (\<lambda>norms.
     let dW = (case c_dW c of None \<Rightarrow> deltaW (N - 1) (c_m c) h | Some a \<Rightarrow> a) in
     then_do (setitem y 0 (map (astype dt) (c_y0 c))) (\<lambda>y.
     then_do (for_loop [0..<N - 1]
                (itoQuasiImplicitEuler_body (c_f c) (c_G c) (c_tspan c) dW h normalized downsample
                   explicit_ports implicit_ports dt) (y ! 0, y, norms))
       (\<lambda>(y_next, y, norms). Inr (y, norms)))))))))"

subsection \<open>itoMilstein and numItoMilstein\<close>

definition itoMilstein_body ::
  "pyfn \<Rightarrow> Garg \<Rightarrow> Hfun \<Rightarrow> real list \<Rightarrow> real list list \<Rightarrow> real list list list \<Rightarrow> real \<Rightarrow> bool \<Rightarrow> int \<Rightarrow>
   dtype \<Rightarrow> nat \<Rightarrow> vec \<times> mat \<Rightarrow> error + vec \<times> mat" where
  "itoMilstein_body f G H tspan dW I h normalized downsample dt n s =
     (case s of (y_next, y) \<Rightarrow>
        let tn = tspan ! n; yn = y_next; dWn = dW ! n; Iij = I ! n; fn = call_f f yn tn in
        then_do (call_G G yn tn) (\<lambda>Gn.
        then_do (call_H H yn tn) (\<lambda>Hn.
        let y_next = renormalize normalized
              (vadd (vadd (vadd yn (vscale fn h)) (dot Gn dWn))
                    (dot (map concat (ten_of Hn)) (concat Iij))) in
        then_do (record_row y n downsample (map (astype dt) y_next)) (\<lambda>y.
        Inr (y_next, y)))))"

definition itoMilstein ::
  "wiener \<Rightarrow> pyfn \<Rightarrow> Garg \<Rightarrow> Hfun \<Rightarrow> y0arg \<Rightarrow> real list \<Rightarrow> ijmethod \<Rightarrow> real list list arrarg option \<Rightarrow>
   real list list list arrarg option \<Rightarrow> bool \<Rightarrow> int \<Rightarrow> error + mat" where
  "itoMilstein deltaW f G H y0 tspan Imethod dW I normalized downsample =
     then_do (check_args f G y0 tspan dW I H) (\<lambda>c.
     let N = length tspan in
     then_do (rec_index (int N) downsample) (\<lambda>N_record.
     let h = (tspan ! (N - 1) - tspan ! 0) / real (N - 1) in
     then_do (elem_type c) (\<lambda>dt.
     then_do (zeros N_record (c_d c)) (\<lambda>y.
     let dW = (case c_dW c of None \<Rightarrow> deltaW (N - 1) (c_m c) h | Some a \<Rightarrow> a);
         I = (case c_IJ c of None \<Rightarrow> snd (Imethod dW h) | Some a \<Rightarrow> a) in
     then_do (setitem y 0 (map (astype dt) (c_y0 c))) (\<lambda>y.
     then_do (for_loop [0..<N - 1]
                (itoMilstein_body (c_f c) (c_G c) H (c_tspan c) dW I h normalized downsample dt)
                (y ! 0, y))
       (\<lambda>(y_next, y). Inr y))))))"

text \<open>
  \<open>numItoMilstein\<close> validates, then calls \<open>itoMilstein\<close> with what the validation
  returned: the promoted \<open>f\<close>, \<open>G\<close> and \<open>y0\<close>, and \<open>dW\<close>, \<open>I\<close> as they were given.
\<close>

definition numItoMilstein ::
  "wiener \<Rightarrow> pyfn \<Rightarrow> Garg \<Rightarrow> y0arg \<Rightarrow> real list \<Rightarrow> ijmethod \<Rightarrow> real list list arrarg option \<Rightarrow>
   real list list list arrarg option \<Rightarrow> bool \<Rightarrow> int \<Rightarrow> real \<Rightarrow> error + mat" where
  "numItoMilstein deltaW f G y0 tspan Imethod dW I normalized downsample eps =
     then_do (check_args f G y0 tspan dW I HNone) (\<lambda>c.
     itoMilstein deltaW (c_f c) (c_G c) (HNumerical (gen_H_numerical (c_G c) eps))
       (Y0Array (c_dtype c) (c_y0 c)) (c_tspan c) Imethod
       (map_option NdArray (c_dW c)) (map_option NdArray (c_IJ c)) normalized downsample)"

subsection \<open>stratHeun\<close>

definition madd :: "mat \<Rightarrow> mat \<Rightarrow> mat" where
  "madd A B = map2 vadd A B"

text \<open>
  \<^verbatim>\<open>y[n+1] /= la.norm(y[n+1])\<close> divides a row of \<open>y\<close> in place, which numpy refuses for
  an array of integers or booleans.
\<close>

definition divide_row :: "dtype \<Rightarrow> vec \<Rightarrow> error + vec" where
  "divide_row dt row =
     (case dt of
        BoolT \<Rightarrow> Inl TypeError
      | Int64 \<Rightarrow> Inl TypeError
      | _ \<Rightarrow> Inr (map (astype dt) (vdiv row (la_norm row))))"

definition stratHeun_body ::
  "pyfn \<Rightarrow> Garg \<Rightarrow> real list \<Rightarrow> real list list \<Rightarrow> real \<Rightarrow> bool \<Rightarrow> dtype \<Rightarrow>
   nat \<Rightarrow> mat \<Rightarrow> error + mat" where
  "stratHeun_body f G tspan dW h normalized dt n y =
     (let tn = tspan ! n; tnp1 = tspan ! (n + 1); yn = y ! n; dWn = dW ! n; fn = call_f f yn tn in
      then_do (call_G G yn tn) (\<lambda>Gn.
      let ybar = vadd (vadd yn (vscale fn h)) (dot Gn dWn); fnbar = call_f f ybar tnp1 in
      then_do (call_G G ybar tnp1) (\<lambda>Gnbar.
      then_do (setitem y (int n + 1)
                 (map (astype dt)
                    (vadd (vadd yn (vscale (vscale (vadd fn fnbar) (1/2)) h))
                          (dot (map (\<lambda>r. vscale r (1/2)) (madd Gn Gnbar)) dWn)))) (\<lambda>y.
      if normalized
      then then_do (divide_row dt (y ! (n + 1))) (\<lambda>row. setitem y (int n + 1) row)
      else Inr y))))"

definition stratHeun ::
  "wiener \<Rightarrow> pyfn \<Rightarrow> Garg \<Rightarrow> y0arg \<Rightarrow> real list \<Rightarrow> real list list arrarg option \<Rightarrow> bool \<Rightarrow> error + mat" where
  "stratHeun deltaW f G y0 tspan dW normalized =
     then_do (check_args f G y0 tspan dW None HNone) (\<lambda>c.
     let N = length tspan;
         h = (tspan ! (N - 1) - tspan ! 0) / real (N - 1) in
     then_do (elem_type c) (\<lambda>dt.
     then_do (zeros (int N) (c_d c)) (\<lambda>y.
     let dW = (case c_dW c of None \<Rightarrow> deltaW (N - 1) (c_m c) h | Some a \<Rightarrow> a) in
     then_do (setitem y 0 (map (astype dt) (c_y0 c))) (\<lambda>y.
     for_loop [0..<N - 1] (stratHeun_body (c_f c) (c_G c) (c_tspan c) dW h normalized dt) y))))"

subsection \<open>The Roessler SRK2 kernel: itoSRI2 and stratSRS2\<close>

text \<open>\<^verbatim>\<open>Gn.dot(Iij)\<close> for a matrix \<open>Iij\<close>, and a matrix divided by a number.\<close>

definition mdot :: "mat \<Rightarrow> real list list \<Rightarrow> mat" where
  "mdot A B = map (\<lambda>r. map (\<lambda>c. vdot r c) (transpose B)) A"

definition mdiv :: "mat \<Rightarrow> real \<Rightarrow> mat" where
  "mdiv A r = map (\<lambda>row. vdiv row r) A"

text \<open>
  \<^verbatim>\<open>for k in range(0, m): Gn[:,k] = G[k](Yn, tn)\<close>: the buffer \<open>Gn\<close> has the element
  type of \<open>y\<close> and is filled column by column, every column in every pass. A column
  of another length cannot be stored (numpy's broadcasting of a one-element column is
  not modelled).
\<close>

fun eval_columns :: "pyfn option list \<Rightarrow> nat \<Rightarrow> vec \<Rightarrow> real \<Rightarrow> error + vec list" where
  "eval_columns [] d y t = Inr []"
| "eval_columns (None # gs) d y t = Inl TypeError"
| "eval_columns (Some g # gs) d y t =
     (if shape_of (call g (Vec y) t) = [d]
      then then_do (eval_columns gs d y t) (\<lambda>cols. Inr (vec_of (call g (Vec y) t) # cols))
      else Inl ValueError)"

definition fill_Gn :: "pyfn option list \<Rightarrow> nat \<Rightarrow> dtype \<Rightarrow> vec \<Rightarrow> real \<Rightarrow> error + mat" where
  "fill_Gn gs d dt y t =
     then_do (eval_columns gs d y t) (\<lambda>cols.
     Inr (map (\<lambda>i. map (\<lambda>c. astype dt (c ! i)) cols) [0..<d]))"

text \<open>
  The two loops over \<open>k\<close> that add the correction
  \<^verbatim>\<open>0.5*sqrth*(G[k](H2[:,k], tn1) - G[k](H3[:,k], tn1))\<close>, or the same with column \<open>k\<close>
  of \<^verbatim>\<open>G(H2[:,k], tn1)\<close> and \<^verbatim>\<open>G(H3[:,k], tn1)\<close>.
\<close>

definition correction_sep ::
  "pyfn option list \<Rightarrow> mat \<Rightarrow> mat \<Rightarrow> real \<Rightarrow> real \<Rightarrow> nat \<Rightarrow> vec \<Rightarrow> error + vec" where
  "correction_sep gs H2 H3 sqrth tn1 k Yn1 =
     (case gs ! k of
        None \<Rightarrow> Inl TypeError
      | Some g \<Rightarrow>
          Inr (vadd Yn1 (vscale (vsub (vec_of (call g (Vec (column H2 k)) tn1))
                                      (vec_of (call g (Vec (column H3 k)) tn1)))
                                (1/2 * sqrth))))"

definition correction_mat ::
  "pyfn \<Rightarrow> mat \<Rightarrow> mat \<Rightarrow> real \<Rightarrow> real \<Rightarrow> nat \<Rightarrow> vec \<Rightarrow> error + vec" where
  "correction_mat g H2 H3 sqrth tn1 k Yn1 =
     Inr (vadd Yn1 (vscale (vsub (column (mat_of (call g (Vec (column H2 k)) tn1)) k)
                                 (column (mat_of (call g (Vec (column H3 k)) tn1)) k))
                           (1/2 * sqrth)))"

definition SRK2_body ::
  "pyfn \<Rightarrow> Garg \<Rightarrow> nat \<Rightarrow> nat \<Rightarrow> real list \<Rightarrow> real list list \<Rightarrow> real list list list \<Rightarrow> bool \<Rightarrow> int \<Rightarrow>
   dtype \<Rightarrow> nat \<Rightarrow> vec \<times> mat \<Rightarrow> error + vec \<times> mat" where
  "SRK2_body f G d m tspan dW I normalized downsample dt n s =
     (case s of (Yn1, y) \<Rightarrow>
        let tn = tspan ! n; tn1 = tspan ! (n + 1); h = tn1 - tn; sqrth = sqrt h;
            Yn = Yn1; Ik = dW ! n; Iij = I ! n;
            fnh = vscale (call_f f Yn tn) h in
        then_do (case G of GSeq gs \<Rightarrow> fill_Gn gs d dt Yn tn
                         | GFun g \<Rightarrow> Inr (mat_of (call g (Vec Yn) tn))) (\<lambda>Gn.
        let sum1 = mdiv (mdot Gn Iij) sqrth;
            H20 = vadd Yn fnh;
            H2 = map2 (\<lambda>a row. map (\<lambda>x. a + x) row) H20 sum1;
            H3 = map2 (\<lambda>a row. map (\<lambda>x. a - x) row) H20 sum1;
            fn1h = vscale (call_f f H20 tn1) h;
            Yn1 = vadd (vadd Yn (vscale (vadd fnh fn1h) (1/2))) (dot Gn Ik) in
        then_do (case G of
                   GSeq gs \<Rightarrow> for_loop [0..<m] (correction_sep gs H2 H3 sqrth tn1) Yn1
                 | GFun g \<Rightarrow> for_loop [0..<m] (correction_mat g H2 H3 sqrth tn1) Yn1) (\<lambda>Yn1.
        let Yn1 = renormalize normalized Yn1 in
        then_do (record_row y n downsample (map (astype dt) Yn1)) (\<lambda>y.
        Inr (Yn1, y)))))"

definition Roessler2010_SRK2 ::
  "wiener \<Rightarrow> pyfn \<Rightarrow> Garg \<Rightarrow> y0arg \<Rightarrow> real list \<Rightarrow> ijmethod \<Rightarrow> real list list arrarg option \<Rightarrow>
   real list list list arrarg option \<Rightarrow> bool \<Rightarrow> int \<Rightarrow> error + mat" where
  "Roessler2010_SRK2 deltaW f G y0 tspan IJmethod dW IJ normalized downsample =
     then_do (check_args f G y0 tspan dW IJ HNone) (\<lambda>c.
     let N = length tspan in
     then_do (rec_index (int N) downsample) (\<lambda>N_record.
     let h = (tspan ! (N - 1) - tspan ! 0) / real (N - 1);
         dW = (case c_dW c of None \<Rightarrow> deltaW (N - 1) (c_m c) h | Some a \<Rightarrow> a);
         I = (case c_IJ c of None \<Rightarrow> snd (IJmethod dW h) | Some a \<Rightarrow> a) in
     then_do (elem_type c) (\<lambda>dt.
     then_do (zeros N_record (c_d c)) (\<lambda>y.
     then_do (setitem y 0 (map (astype dt) (c_y0 c))) (\<lambda>y.
     then_do (for_loop [0..<N - 1]
                (SRK2_body (c_f c) (c_G c) (c_d c) (c_m c) (c_tspan c) dW I normalized downsample dt)
                (y ! 0, y))
       (\<lambda>(Yn1, y). Inr y))))))"

definition itoSRI2 ::
  "wiener \<Rightarrow> pyfn \<Rightarrow> Garg \<Rightarrow> y0arg \<Rightarrow> real list \<Rightarrow> ijmethod \<Rightarrow> real list list arrarg option \<Rightarrow>
   real list list list arrarg option \<Rightarrow> bool \<Rightarrow> int \<Rightarrow> error + mat" where
  "itoSRI2 deltaW f G y0 tspan Imethod dW I normalized downsample =
     Roessler2010_SRK2 deltaW f G y0 tspan Imethod dW I normalized downsample"

definition stratSRS2 ::
  "wiener \<Rightarrow> pyfn \<Rightarrow> Garg \<Rightarrow> y0arg \<Rightarrow> real list \<Rightarrow> ijmethod \<Rightarrow> real list list arrarg option \<Rightarrow>
   real list list list arrarg option \<Rightarrow> bool \<Rightarrow> error + mat" where
  "stratSRS2 deltaW f G y0 tspan Jmethod dW J normalized =
     Roessler2010_SRK2 deltaW f G y0 tspan Jmethod dW J normalized 1"

text \<open>
  The dispatchers validate, then call the chosen scheme with the promoted \<open>f\<close>, \<open>G\<close>
  and \<open>y0\<close> and its default repeated-integral method (\<^verbatim>\<open>Ikpw\<close>, \<^verbatim>\<open>Jkpw\<close>).
\<close>

definition itoint ::
  "wiener \<Rightarrow> ijmethod \<Rightarrow> pyfn \<Rightarrow> Garg \<Rightarrow> y0arg \<Rightarrow> real list \<Rightarrow> bool \<Rightarrow> error + mat" where
  "itoint deltaW Ikpw f G y0 tspan normalized =
     then_do (check_args f G y0 tspan None None HNone) (\<lambda>c.
     itoSRI2 deltaW (c_f c) (c_G c) (Y0Array (c_dtype c) (c_y0 c)) (c_tspan c) Ikpw None None
       normalized 1)"

definition stratint ::
  "wiener \<Rightarrow> ijmethod \<Rightarrow> pyfn \<Rightarrow> Garg \<Rightarrow> y0arg \<Rightarrow> real list \<Rightarrow> bool \<Rightarrow> error + mat" where
  "stratint deltaW Jkpw f G y0 tspan normalized =
     then_do (check_args f G y0 tspan None None HNone) (\<lambda>c.
     stratSRS2 deltaW (c_f c) (c_G c) (Y0Array (c_dtype c) (c_y0 c)) (c_tspan c) Jkpw None None
       normalized)"

subsection \<open>stratKP2iS\<close>

text \<open>
  \<^verbatim>\<open>scipy.optimize.fsolve(_imp, Yn, args=args, xtol=rtol, full_output=True)\<close> is a
  parameter: given the residual function, the initial guess and the tolerance it returns a
  root, a status (1 for success) and a message. \<open>None\<close> stands for a missing scipy.
\<close>

type_synonym solver = "(vec \<Rightarrow> vec) \<Rightarrow> vec \<Rightarrow> real \<Rightarrow> vec \<times> int \<times> string"

definition vmul :: "real list \<Rightarrow> vec \<Rightarrow> vec" where
  "vmul a v = map2 (\<lambda>r x. of_real r * x) a v"

text \<open>The residual \<^verbatim>\<open>_imp\<close>; it reads \<open>gam\<close>, \<open>al1\<close>, \<open>al2\<close>, \<open>f\<close> and the current \<open>h\<close>.\<close>

definition imp ::
  "pyfn \<Rightarrow> real list \<Rightarrow> real list \<Rightarrow> real list \<Rightarrow> real \<Rightarrow>
   vec \<Rightarrow> vec \<Rightarrow> vec \<Rightarrow> vec \<Rightarrow> real \<Rightarrow> vec \<Rightarrow> vec \<Rightarrow> vec \<Rightarrow> vec" where
  "imp f gam al1 al2 h Yn Ynm1 Vn Vnm1 tnp1 fn fnm1 Ynp1 =
     vsub
       (vadd
          (vadd
             (vadd
                (vadd (vmul (map (\<lambda>g. 1 - g) gam) Yn) (vmul gam Ynm1))
                (vscale
                   (vadd
                      (vadd (vmul al2 (call_f f Ynp1 tnp1))
                            (vmul (map2 (+) (map2 (*) gam al1) (map (\<lambda>a. 1 - a) al2)) fn))
                      (vmul (map2 (\<lambda>g a. g * (1 - a)) gam al1) fnm1))
                   h))
             Vn)
          (vmul gam Vnm1))
       Ynp1"

definition msub :: "mat \<Rightarrow> mat \<Rightarrow> mat" where
  "msub A B = map2 vsub A B"

definition stratKP2iS_body ::
  "pyfn \<Rightarrow> pyfn \<Rightarrow> solver \<Rightarrow> nat \<Rightarrow> nat \<Rightarrow> real list \<Rightarrow> real list list \<Rightarrow> real list list list \<Rightarrow>
   real list \<Rightarrow> real list \<Rightarrow> real list \<Rightarrow> real \<Rightarrow> bool \<Rightarrow> dtype \<Rightarrow>
   nat \<Rightarrow> vec option \<times> vec option \<times> mat \<Rightarrow> error + vec option \<times> vec option \<times> mat" where
  "stratKP2iS_body f g fsolve d m tspan dW J gam al1 al2 rtol normalized dt n s =
     (case s of (fn_prev, Vn_prev, y) \<Rightarrow>
        let tn = tspan ! n; tnp1 = tspan ! (n + 1); h = tnp1 - tn; sqrth = sqrt h;
            Yn = y ! n; Jk = dW ! n; Jij = J ! n;
            fnm1 = fn_prev;
            fn = call_f f Yn tn;
            Gn = mat_of (call g (Vec Yn) tn);
            Ybar = map2 (\<lambda>a row. map (\<lambda>x. a + x * of_real sqrth) row) (vadd Yn (vscale fn h)) Gn;
            sum1 = fold (\<lambda>j1 acc. vadd acc
                           (dot (msub (mat_of (call g (Vec (column Ybar j1)) tn)) Gn) (Jij ! j1)))
                     [0..<m] (replicate d 0);
            Vnm1 = Vn_prev;
            Vn = vadd (dot Gn Jk) (vdiv sum1 sqrth) in
        if n = 0
        then then_do (setitem y (int n + 1) (map (astype dt) (vadd (vadd Yn (vscale fn h)) Vn)))
               (\<lambda>y. Inr (Some fn, Some Vn, y))
        else
          (case (fnm1, Vnm1) of
             (Some fnm1, Some Vnm1) \<Rightarrow>
               (let tnm1 = tspan ! (n - 1); Ynm1 = y ! (n - 1) in
                case fsolve (imp f gam al1 al2 h Yn Ynm1 Vn Vnm1 tnp1 fn fnm1) Yn rtol of
                  (Ynp1, status, message) \<Rightarrow>
                    if status = 1
                    then then_do (setitem y (int n + 1) (map (astype dt) (renormalize normalized Ynp1)))
                           (\<lambda>y. Inr (Some fn, Some Vn, y))
                    else Inl (RuntimeError tn message))
           | _ \<Rightarrow> Inl TypeError))"

definition stratKP2iS ::
  "wiener \<Rightarrow> solver option \<Rightarrow> pyfn \<Rightarrow> Garg \<Rightarrow> y0arg \<Rightarrow> real list \<Rightarrow> ijmethod \<Rightarrow>
   real list option \<Rightarrow> real list option \<Rightarrow> real list option \<Rightarrow> real \<Rightarrow>
   real list list arrarg option \<Rightarrow> real list list list arrarg option \<Rightarrow> bool \<Rightarrow> error + mat" where
  "stratKP2iS deltaW scipy f G y0 tspan Jmethod gam al1 al2 rtol dW J normalized =
     (case scipy of
        None \<Rightarrow> Inl Error
      | Some fsolve \<Rightarrow>
          then_do (check_args f G y0 tspan dW J HNone) (\<lambda>c.
          case c_G c of
            GSeq gs \<Rightarrow> Inl (SDEValueError GNotFunction)
          | GFun g \<Rightarrow>
              if c_dtype c = Complex128 then Inl (SDEValueError NoComplex)
              else
              let d = c_d c; m = c_m c;
                  gam = (case gam of None \<Rightarrow> replicate d (1/2) | Some a \<Rightarrow> a);
                  al1 = (case al1 of None \<Rightarrow> replicate d (1/2) | Some a \<Rightarrow> a);
                  al2 = (case al2 of None \<Rightarrow> replicate d (1/2) | Some a \<Rightarrow> a);
                  N = length tspan;
                  h = (tspan ! (N - 1) - tspan ! 0) / real (N - 1);
                  dW = (case c_dW c of None \<Rightarrow> deltaW (N - 1) m h | Some a \<Rightarrow> a);
                  J = (case c_IJ c of None \<Rightarrow> snd (Jmethod dW h) | Some a \<Rightarrow> a) in
              then_do (elem_type c) (\<lambda>dt.
              then_do (zeros (int N) d) (\<lambda>y.
              then_do (setitem y 0 (map (astype dt) (c_y0 c))) (\<lambda>y.
              then_do (for_loop [0..<N - 1]
                         (stratKP2iS_body (c_f c) g fsolve d m (c_tspan c) dW J gam al1 al2 rtol
                            normalized dt)
                         (None, None, y))
                (\<lambda>(fn, Vn, y). Inr y))))))"

section \<open>Example systems\<close>

text \<open>
  One-dimensional systems with one noise channel: drift \<open>1\<close>, \<open>0\<close> or \<open>y\<close>, no
  diffusion. With drift \<open>1\<close> and step \<open>h = 1\<close> from \<open>y0 = 0\<close> the state after \<open>n\<close>
  steps is \<open>n\<close>, the time itself.
\<close>

definition unit_drift :: pyfn where
  "unit_drift = \<lparr>fn_name = ''f'', call = (\<lambda>y t. Vec [1])\<rparr>"

definition zero_drift :: pyfn where
  "zero_drift = \<lparr>fn_name = ''f'', call = (\<lambda>y t. Vec [0])\<rparr>"

definition linear_drift :: pyfn where
  "linear_drift = \<lparr>fn_name = ''f'', call = (\<lambda>y t. y)\<rparr>"

definition zero_noise :: pyfn where
  "zero_noise = \<lparr>fn_name = ''G'', call = (\<lambda>y t. Mat [[0]])\<rparr>"

definition no_wiener :: wiener where
  "no_wiener steps m h = replicate steps (replicate m 0)"

definition no_ij :: ijmethod where
  "no_ij dW h = (dW, map (\<lambda>w. map (\<lambda>a. map (\<lambda>b. 0) w) w) dW)"

definition no_solver :: solver where
  "no_solver F x0 tol = (x0, 0, ''not called'')"

definition scalar_noise :: pyfn where
  "scalar_noise = \<lparr>fn_name = ''G'', call = (\<lambda>y t. Number (1/2))\<rparr>"

section \<open>Notions of the specification\<close>

text \<open>
  \<open>G\<close> is given as a sequence of column functions; \<open>y0\<close> is complex-valued
  (\<^verbatim>\<open>np.iscomplexobj\<close> of the argument, a complex scalar or an array of complex numbers).
\<close>

fun is_GSeq :: "Garg \<Rightarrow> bool" where
  "is_GSeq (GSeq gs) = True"
| "is_GSeq (GFun g) = False"

fun iscomplexobj :: "y0arg \<Rightarrow> bool" where
  "iscomplexobj (Y0Scalar ty x) = (ty = PyComplex)"
| "iscomplexobj (Y0Array dt v) = (dt = Complex128)"

text \<open>
  The step map of the implicit Euler family, for the three modes, the explicit
  Euler-Maruyama estimate, and the projection onto the unit sphere.
\<close>

definition Phi :: "string \<Rightarrow> pyfn \<Rightarrow> pyfn \<Rightarrow> real \<Rightarrow> vec \<Rightarrow> real \<Rightarrow> real list \<Rightarrow> vec \<Rightarrow> vec" where
  "Phi mode f g h yn tn dWn z =
     (if mode = ''implicit''
      then vadd (vadd yn (vscale (call_f f z tn) h)) (dot (mat_of (call g (Vec z) tn)) dWn)
      else if mode = ''semi_implicit_drift''
      then vadd (vadd yn (vscale (call_f f z tn) h)) (dot (mat_of (call g (Vec yn) tn)) dWn)
      else if mode = ''semi_implicit_diffusion''
      then vadd (vadd yn (vscale (call_f f yn tn) h)) (dot (mat_of (call g (Vec z) tn)) dWn)
      else [])"

definition euler_maruyama :: "pyfn \<Rightarrow> pyfn \<Rightarrow> real \<Rightarrow> vec \<Rightarrow> real \<Rightarrow> real list \<Rightarrow> vec" where
  "euler_maruyama f g h yn tn dWn =
     vadd (vadd yn (vscale (call_f f yn tn) h)) (dot (mat_of (call g (Vec yn) tn)) dWn)"

definition unit_sphere :: "vec \<Rightarrow> vec" where
  "unit_sphere v = vdiv v (la_norm v)"

text \<open>
  A time grid is uniform when the smallest and the largest difference of consecutive
  points agree within the tolerance of \<^verbatim>\<open>np.isclose\<close>. A supplied \<open>dW\<close> has the wrong
  shape for \<open>N\<close> time points and \<open>m\<close> noise channels when its shape is not \<open>(N-1, m)\<close>;
  a supplied \<open>I\<close> or \<open>J\<close>, when its shape is not \<open>(N-1, m, m)\<close>.
\<close>

definition uniform_grid :: "real list \<Rightarrow> bool" where
  "uniform_grid tspan \<longleftrightarrow> isclose (Min (set (diff tspan))) (Max (set (diff tspan)))"

definition wrong_dW :: "real list list arrarg option \<Rightarrow> nat \<Rightarrow> nat \<Rightarrow> bool" where
  "wrong_dW dW N m =
     (case dW of
        None \<Rightarrow> False
      | Some NoShapeAttr \<Rightarrow> True
      | Some (NdArray a) \<Rightarrow> \<not> has_shape2 a (N - 1) m)"

definition wrong_IJ :: "real list list list arrarg option \<Rightarrow> nat \<Rightarrow> nat \<Rightarrow> bool" where
  "wrong_IJ IJ N m =
     (case IJ of
        None \<Rightarrow> False
      | Some NoShapeAttr \<Rightarrow> True
      | Some (NdArray a) \<Rightarrow> \<not> has_shape3 a (N - 1) m m)"

text \<open>
  The validation failures of claim C6, in the order the checks are made: on a grid of at
  least two points, a grid that is not uniform fails with the message about equally
  spaced time steps; on a uniform grid with \<open>y0\<close>, \<open>f\<close> and \<open>G\<close> that pass their own
  checks and give \<open>m\<close>, a \<open>dW\<close> of the wrong shape fails with the message naming the shape
  \<open>(len(tspan)-1, m)\<close>, and otherwise an \<open>I\<close> or \<open>J\<close> of the wrong shape fails with the
  message naming \<open>(len(tspan)-1, m, m)\<close>.
\<close>

definition validation_failure ::
  "pyfn \<Rightarrow> Garg \<Rightarrow> y0arg \<Rightarrow> real list \<Rightarrow> real list list arrarg option \<Rightarrow>
   real list list list arrarg option \<Rightarrow> msg \<Rightarrow> bool" where
  "validation_failure f G y0 tspan dW IJ e \<longleftrightarrow>
     2 \<le> length tspan \<and>
     (if \<not> uniform_grid tspan then e = EquallySpaced
      else case check_args f G y0 tspan None None HNone of
             Inl err \<Rightarrow> False
           | Inr c \<Rightarrow>
               if wrong_dW dW (length tspan) (c_m c) then e = DWShape (c_m c)
               else wrong_IJ IJ (length tspan) (c_m c) \<and> e = IJShape (c_m c))"

definition two_drift :: pyfn where
  "two_drift = \<lparr>fn_name = ''f'', call = (\<lambda>y t. Vec [1, 1])\<rparr>"

text \<open>
  For the two ways of giving the diffusion: a matrix function \<open>g\<close> that returns a
  \<open>d x m\<close> matrix everywhere, with entries that an array of element type \<open>dt\<close> holds
  unchanged; and column functions \<open>gs\<close> with \<open>g_k(y,t) = G(y,t)[:,k]\<close> for all \<open>(y,t)\<close>.
\<close>

definition valid_G :: "pyfn \<Rightarrow> nat \<Rightarrow> nat \<Rightarrow> dtype \<Rightarrow> bool" where
  "valid_G g d m dt \<longleftrightarrow>
     (\<forall>y t. \<exists>M. call g (Vec y) t = Mat M \<and> length M = d \<and>
        list_all (\<lambda>r. length r = m \<and> list_all (\<lambda>x. astype dt x = x) r) M)"

definition columns_of :: "pyfn \<Rightarrow> pyfn option list \<Rightarrow> bool" where
  "columns_of g gs \<longleftrightarrow>
     (\<forall>k < length gs. \<exists>gk. gs ! k = Some gk \<and>
        (\<forall>y t. call gk (Vec y) t = Vec (column (mat_of (call g (Vec y) t)) k)))"

text \<open>
  The implicit Euler family as a recurrence. The grid step \<open>h\<close> and the increments
  \<open>dW\<close> (the supplied ones, or the drawn ones) are those of the call. A pass is the step
  map of the mode, followed by the projection when \<open>normalized\<close> is set; the state after
  step \<open>n\<close> is the result of three passes from the state before it; the last pass of
  step \<open>n\<close>, before its projection, is what the norm of the step is taken of.
\<close>

definition grid_step :: "real list \<Rightarrow> real" where
  "grid_step tspan = (tspan ! (length tspan - 1) - tspan ! 0) / real (length tspan - 1)"

definition increments :: "wiener \<Rightarrow> checked \<Rightarrow> real list list" where
  "increments deltaW c =
     (case c_dW c of
        None \<Rightarrow> deltaW (length (c_tspan c) - 1) (c_m c) (grid_step (c_tspan c))
      | Some a \<Rightarrow> a)"

definition pass_map ::
  "string \<Rightarrow> pyfn \<Rightarrow> pyfn \<Rightarrow> real \<Rightarrow> bool \<Rightarrow> vec \<Rightarrow> real \<Rightarrow> real list \<Rightarrow> vec \<Rightarrow> vec" where
  "pass_map mode f g h normalized yn tn dWn z =
     (if normalized then unit_sphere (Phi mode f g h yn tn dWn z) else Phi mode f g h yn tn dWn z)"

fun implicit_state ::
  "string \<Rightarrow> pyfn \<Rightarrow> pyfn \<Rightarrow> real \<Rightarrow> real list \<Rightarrow> real list list \<Rightarrow> bool \<Rightarrow> vec \<Rightarrow> nat \<Rightarrow> vec" where
  "implicit_state mode f g h tspan dW normalized y0 0 = y0"
| "implicit_state mode f g h tspan dW normalized y0 (Suc n) =
     (let yn = implicit_state mode f g h tspan dW normalized y0 n;
          S = pass_map mode f g h normalized yn (tspan ! n) (dW ! n)
      in S (S (S yn)))"

definition last_pass ::
  "string \<Rightarrow> pyfn \<Rightarrow> pyfn \<Rightarrow> real \<Rightarrow> real list \<Rightarrow> real list list \<Rightarrow> bool \<Rightarrow> vec \<Rightarrow> nat \<Rightarrow> vec" where
  "last_pass mode f g h tspan dW normalized y0 n =
     (let yn = implicit_state mode f g h tspan dW normalized y0 n;
          S = pass_map mode f g h normalized yn (tspan ! n) (dW ! n)
      in Phi mode f g h yn (tspan ! n) (dW ! n) (S (S yn)))"

text \<open>
  What step \<open>n\<close> leaves behind: the norm of its last pass in \<open>norms\<close> and its state in
  \<open>y\<close>, both through \<open>record_row\<close>, and its state for the next step.
\<close>

definition implicit_record_step ::
  "string \<Rightarrow> pyfn \<Rightarrow> pyfn \<Rightarrow> real \<Rightarrow> real list \<Rightarrow> real list list \<Rightarrow> bool \<Rightarrow> vec \<Rightarrow> int \<Rightarrow> dtype \<Rightarrow>
   nat \<Rightarrow> vec \<times> mat \<times> vec \<Rightarrow> error + vec \<times> mat \<times> vec" where
  "implicit_record_step mode f g h tspan dW normalized y0 k dt n s =
     (case s of (yn, y, norms) \<Rightarrow>
        then_do (record_row norms n k
                   (astype dt (of_real (la_norm (last_pass mode f g h tspan dW normalized y0 n)))))
          (\<lambda>norms'.
        then_do (record_row y n k
                   (map (astype dt) (implicit_state mode f g h tspan dW normalized y0 (Suc n))))
          (\<lambda>y'.
        Inr (implicit_state mode f g h tspan dW normalized y0 (Suc n), y', norms'))))"

text \<open>
  No pass of the first \<open>N - 1\<close> steps ends in the zero vector (whose projection is not a
  number in floating point arithmetic).
\<close>

definition passes_nonzero ::
  "string \<Rightarrow> pyfn \<Rightarrow> pyfn \<Rightarrow> real \<Rightarrow> real list \<Rightarrow> real list list \<Rightarrow> vec \<Rightarrow> nat \<Rightarrow> bool" where
  "passes_nonzero mode f g h tspan dW y0 N =
     list_all
       (\<lambda>n. let yn = implicit_state mode f g h tspan dW True y0 n;
                 P = Phi mode f g h yn (tspan ! n) (dW ! n);
                 S = pass_map mode f g h True yn (tspan ! n) (dW ! n)
             in la_norm (P yn) \<noteq> 0 \<and> la_norm (P (S yn)) \<noteq> 0 \<and> la_norm (P (S (S yn))) \<noteq> 0)
       [0..<N - 1]"

definition linear_noise :: pyfn where
  "linear_noise = \<lparr>fn_name = ''G'', call = (\<lambda>y t. Array [y])\<rparr>"

section \<open>Evaluation\<close>

lemmas eval_defs =
  check_args_def diff_def isclose_def promote_scalar_def then_do_def Vec_def Mat_def
  check_G_def check_dW_def check_IJ_def check_Hfun_def has_shape2_def has_shape3_def
  rec_index_def int_quot_def elem_type_def zeros_def zeros1_def setitem_def call_G_def
  call_f_def vec_of_def mat_of_def renormalize_def vadd_def vsub_def vscale_def vdiv_def dot_def
  vdot_def record_row_def column_def Let_def
  unit_drift_def zero_drift_def linear_drift_def zero_noise_def scalar_noise_def

section \<open>What the validation returns\<close>

lemma then_do_Inr: "then_do r k = Inr v \<longleftrightarrow> (\<exists>a. r = Inr a \<and> k a = Inr v)"
  by (cases r) (simp_all add: then_do_def)

lemma then_do_Inl [simp]: "then_do (Inl e) k = Inl e"
  by (simp add: then_do_def)

lemma then_do_Inr_simp [simp]: "then_do (Inr a) k = k a"
  by (simp add: then_do_def)

lemma check_args_InrD:
  assumes "check_args f G y0 tspan dW IJ H = Inr c"
  shows "2 \<le> length tspan"
    and "isclose (fold min (tl (diff tspan)) (hd (diff tspan)))
           (fold max (tl (diff tspan)) (hd (diff tspan)))"
    and "promote_scalar f G y0 (tspan ! 0) = Inr (c_f c, c_G c, c_dtype c, c_y0 c)"
    and "c_d c = length (c_y0 c)"
    and "len (call (c_f c) (Vec (c_y0 c)) (tspan ! 0)) = Inr (c_d c)"
    and "check_G (c_G c) (c_d c) (c_y0 c) (tspan ! 0) = Inr (c_m c)"
    and "check_dW dW (length tspan) (c_m c) = Inr ()"
    and "check_IJ IJ (length tspan) (c_m c) = Inr ()"
    and "check_Hfun H (c_d c) (c_m c) (c_y0 c) (tspan ! 0) = Inr ()"
    and "c_tspan c = tspan" and "c_dW c = the_array dW" and "c_IJ c = the_array IJ"
  using assms
  by (auto simp: check_args_def then_do_Inr Let_def split: if_splits prod.splits)

lemma numtype_Complex128 [simp]: "(numtype ty = Complex128) = (ty = PyComplex)"
  by (cases ty) (simp_all add: numtype_def)

lemma promote_scalar_kind:
  assumes "promote_scalar f G y0 t0 = Inr (f', G', dt, v)"
  shows "is_GSeq G' = is_GSeq G" and "(dt = Complex128) = iscomplexobj y0"
  using assms
  by (auto simp: promote_scalar_def Let_def split: y0arg.splits Garg.splits if_splits)

section \<open>The first row and the rows kept when downsampling\<close>

text \<open>
  Claim C1: for every integrator the first row of the returned trajectory is the initial
  state \<open>y0\<close>, never touched by the steps or by normalization.

  The code does not do this. \<open>itoEuler\<close> stores the state after step \<open>n\<close> in row
  \<^verbatim>\<open>int((n-1)/downsample)+1\<close>, which for \<open>n = 0\<close> and \<open>downsample = 1\<close> is row \<open>0\<close>:
  with \<open>dy = y dt\<close>, \<open>y0 = [1]\<close> and the grid \<open>[0, 1]\<close>, the first row of the result is
  the state \<open>[2]\<close> after the first step, and the last row is never written.
\<close>

theorem C1_itoEuler_first_row_overwritten:
  "itoEuler no_wiener linear_drift (GFun zero_noise) (Y0Array Float64 [1]) [0, 1]
     (Some (NdArray [[0]])) False 1 = Inr [[2], [0]]"
  by (simp add: itoEuler_def itoEuler_body_def eval_defs eval_nat_numeral)

text \<open>
  Claim C2: with downsample factor \<open>k\<close> and \<open>N\<close> time points the result has
  \<open>floor((N-1)/k)+1\<close> rows, which are the states at a strictly increasing sub-sequence
  of the time grid that includes the first point (and the last one when \<open>k\<close> divides
  \<open>N-1\<close>).

  With drift \<open>1\<close> the state is the time, so the rows show the times they belong to.
  For \<open>k = 1\<close> on the grid \<open>[0, 1, 2]\<close> the rows should be \<open>0, 1, 2\<close>; the code returns
  \<open>1, 2, 0\<close>: the states at \<open>t1\<close> and \<open>t2\<close>, then a row that was never written.
\<close>

theorem C2_itoEuler_rows_shifted:
  "itoEuler no_wiener unit_drift (GFun zero_noise) (Y0Array Float64 [0]) [0, 1, 2]
     (Some (NdArray [[0], [0]])) False 1 = Inr [[1], [2], [0]]"
  by (simp add: itoEuler_def itoEuler_body_def eval_defs upt_rec eval_nat_numeral)

text \<open>
  The same index for \<open>k = 2\<close> on the grid \<open>[0, 1, 2, 3, 4]\<close>: the rows should be the
  states \<open>0, 2, 4\<close>; row \<open>1\<close> receives the state at \<open>t1\<close> and then the state at \<open>t3\<close>,
  and row \<open>2\<close> is never written.
\<close>

lemma itoEuler_downsample_2:
  "itoEuler no_wiener unit_drift (GFun zero_noise) (Y0Array Float64 [0]) [0, 1, 2, 3, 4]
     (Some (NdArray [[0], [0], [0], [0]])) False 2 = Inr [[0], [3], [0]]"
  by (simp add: itoEuler_def itoEuler_body_def eval_defs upt_rec eval_nat_numeral)

text \<open>
  A factor larger than the number of steps: the result has one row, and the store of
  step \<open>0\<close> into row \<open>1\<close> raises \<^verbatim>\<open>IndexError\<close>.
\<close>

lemma itoEuler_downsample_beyond_grid:
  "itoEuler no_wiener unit_drift (GFun zero_noise) (Y0Array Float64 [0]) [0, 1, 2]
     (Some (NdArray [[0], [0]])) False 5 = Inl IndexError"
  by (simp add: itoEuler_def itoEuler_body_def eval_defs upt_rec eval_nat_numeral)

text \<open>
  The number of rows is as claim C2 says: for \<open>k \<ge> 1\<close>, a trajectory that \<open>itoEuler\<close>
  returns has \<open>floor((N-1)/k)+1\<close> rows.
\<close>

lemma N_record_floor:
  assumes "1 \<le> N" and "1 \<le> k"
  shows "rec_index (int N) (int k) = Inr (int ((N - 1) div k) + 1)"
  using assms by (simp add: rec_index_def int_quot_def of_nat_diff zdiv_int sgn_if)


lemma setitem_length: "setitem xs i v = Inr xs' \<Longrightarrow> length xs' = length xs"
  by (auto simp: setitem_def Let_def split: if_splits)

lemma record_row_length:
  assumes "record_row y n k v = Inr y'"
  shows "length y' = length y"
proof (cases "int n mod k = 0")
  case False
  with assms show ?thesis by (simp add: record_row_def)
next
  case True
  with assms obtain i where "setitem y i v = Inr y'"
    by (auto simp: record_row_def then_do_Inr)
  then show ?thesis by (rule setitem_length)
qed

lemma for_loop_invariant:
  assumes "\<And>n s s'. P s \<Longrightarrow> body n s = Inr s' \<Longrightarrow> P s'"
  shows "P s \<Longrightarrow> for_loop ns body s = Inr s' \<Longrightarrow> P s'"
proof (induction ns arbitrary: s)
  case Nil
  then show ?case by simp
next
  case (Cons n ns)
  from Cons.prems(2) obtain s1 where s1: "body n s = Inr s1" "for_loop ns body s1 = Inr s'"
    by (auto split: sum.splits)
  from assms[OF Cons.prems(1) s1(1)] have "P s1" .
  from Cons.IH[OF this s1(2)] show ?case .
qed

lemma itoEuler_body_length:
  assumes "itoEuler_body f G tspan dW h normalized k dt n (yn, y) = Inr (yn', y')"
  shows "length y' = length y"
  using assms
  by (auto simp: itoEuler_body_def then_do_Inr Let_def dest: record_row_length)

lemma itoEuler_number_of_rows:
  assumes k: "1 \<le> k"
    and r: "itoEuler deltaW f G y0 tspan dW normalized (int k) = Inr y"
  shows "length y = (length tspan - 1) div k + 1"
proof -
  from r obtain c where c: "check_args f G y0 tspan dW None HNone = Inr c"
    by (auto simp: itoEuler_def then_do_Inr)
  from check_args_InrD(1)[OF c] have N: "1 \<le> length tspan" by simp
  note nr = N_record_floor[OF N k]
  from r c nr obtain dt z z' s F GG TS DW H where
    z: "zeros (int ((length tspan - 1) div k) + 1) (c_d c) = Inr z"
    and z': "setitem z 0 (map (astype dt) (c_y0 c)) = Inr z'"
    and l: "for_loop [0..<length tspan - 1] (itoEuler_body F GG TS DW H normalized (int k) dt)
              (z' ! 0, z') = Inr (s, y)"
    by (auto simp: itoEuler_def then_do_Inr Let_def)
  from z have "length z = (length tspan - 1) div k + 1"
    by (auto simp: zeros_def split: if_splits)
  with setitem_length[OF z'] have lz: "length z' = (length tspan - 1) div k + 1" by simp
  have "length (snd (s, y)) = (length tspan - 1) div k + 1"
  proof (rule for_loop_invariant[where P = "\<lambda>s. length (snd s) = (length tspan - 1) div k + 1", OF _ _ l])
    fix n s s'
    assume "length (snd s) = (length tspan - 1) div k + 1"
      and "itoEuler_body F GG TS DW H normalized (int k) dt n s = Inr s'"
    then show "length (snd s') = (length tspan - 1) div k + 1"
      using itoEuler_body_length by (cases s; cases s') fastforce
  next
    show "length (snd (z' ! 0, z')) = (length tspan - 1) div k + 1"
      using lz by simp
  qed
  then show ?thesis by simp
qed

section \<open>The default of the quasi-implicit scheme\<close>

text \<open>
  Claim C3: \<open>itoQuasiImplicitEuler\<close> called without \<open>implicit_ports\<close> succeeds and
  treats every noise channel as explicit.

  The code derives the explicit ports (line 367) before it replaces \<^verbatim>\<open>None\<close> by the
  empty list (lines 368 and 369), so the call fails with \<^verbatim>\<open>TypeError\<close> for a valid
  system with one noise channel.
\<close>

theorem C3_itoQuasiImplicitEuler_default_raises:
  "itoQuasiImplicitEuler no_wiener unit_drift (GFun zero_noise) (Y0Array Float64 [0]) [0, 1]
     (Some (NdArray [[0]])) False 1 None = Inl TypeError"
  by (simp add: itoQuasiImplicitEuler_def explicit_ports_of_def eval_defs)

section \<open>Normalization\<close>

text \<open>
  Claim C5: with \<open>normalized=True\<close> every entry of the trajectory after the first has
  Euclidean norm \<open>1\<close>.

  The first step of \<open>stratKP2iS\<close> (lines 861 to 864) stores its result and continues
  without normalizing it: from \<open>y0 = [2]\<close> with no drift and no noise, row \<open>1\<close> is
  \<open>[2]\<close>, of norm \<open>2\<close>. The solver is not called on a grid of two points.
\<close>

theorem C5_stratKP2iS_first_step_not_normalized:
  "stratKP2iS no_wiener (Some no_solver) zero_drift (GFun zero_noise) (Y0Array Float64 [2])
     [0, 1] no_ij None None None (1 / 10000) (Some (NdArray [[0]])) (Some (NdArray [[[0]]]))
     True = Inr [[2], [2]] \<and>
   la_norm [2] = 2"
  by (simp add: stratKP2iS_def stratKP2iS_body_def msub_def la_norm_def eval_defs eval_nat_numeral)

text \<open>
  In the integrators that downsample, the last row is never written (claim C1), so it
  is the zero vector also when \<open>normalized=True\<close>.
\<close>

lemma itoEuler_normalized_last_row:
  "itoEuler no_wiener unit_drift (GFun zero_noise) (Y0Array Float64 [1]) [0, 1, 2]
     (Some (NdArray [[0], [0]])) True 1 = Inr [[1], [1], [0]]"
  by (simp add: itoEuler_def itoEuler_body_def la_norm_def eval_defs upt_rec eval_nat_numeral)

section \<open>Scalar equations\<close>

text \<open>
  Claim C4, as the code has it: a plain numeric scalar \<open>y0\<close> becomes an array of length
  \<open>1\<close> whose element type is \<^verbatim>\<open>float64\<close> when \<open>y0\<close> is an integer or a boolean, and
  the type of \<open>y0\<close> otherwise; a function \<open>f\<close> or \<open>G\<close> that returns a number at
  \<open>(y0, t0)\<close> is replaced by an adapter of the same name that returns the 1-vector, or
  the 1x1 matrix, of that number.
\<close>

theorem C4_scalar_promotion:
  assumes "check_args f G (Y0Scalar ty x) tspan dW IJ H = Inr c"
  shows "c_d c = 1 \<and> c_y0 c = [astype (numtype ty) x] \<and>
         c_dtype c = (if is_Integral ty then Float64 else np_dtype ty) \<and>
         c_f c = (if is_Number (call f (Number x) (tspan ! 0)) then make_vector_fn f else f) \<and>
         fn_name (c_f c) = fn_name f \<and>
         (\<exists>g. G = GFun g \<and> fn_name (make_matrix_fn g) = fn_name g \<and>
              c_G c = GFun (if is_Number (call g (Number x) (tspan ! 0)) then make_matrix_fn g else g)) \<and>
         (\<forall>v t r. call f (Number v) t = Number r \<longrightarrow> call (make_vector_fn f) (Vec [v]) t = Vec [r]) \<and>
         (\<forall>g v t r. call g (Number v) t = Number r \<longrightarrow> call (make_matrix_fn g) (Vec [v]) t = Mat [[r]])"
proof -
  note d = check_args_InrD[OF assms]
  from d(3) obtain g where G: "G = GFun g"
    by (cases G) (auto simp: promote_scalar_def Let_def)
  from d(3) G have p: "c_y0 c = [astype (numtype ty) x]" "c_dtype c = numtype ty"
    "c_f c = (if is_Number (call f (Number x) (tspan ! 0)) then make_vector_fn f else f)"
    "c_G c = GFun (if is_Number (call g (Number x) (tspan ! 0)) then make_matrix_fn g else g)"
    by (auto simp: promote_scalar_def Let_def)
  have n: "fn_name (c_f c) = fn_name f"
    by (simp add: p make_vector_fn_def)
  show ?thesis
    using d(4) p n G
    by (simp add: numtype_def make_vector_fn_def make_matrix_fn_def Vec_def Mat_def)
qed

text \<open>The scalar equation \<open>dy = y dt + 0.5 dW\<close> from the floating point number \<open>1.0\<close>.\<close>

theorem C4_scalar_promotion_witness:
  "check_args linear_drift (GFun scalar_noise) (Y0Scalar PyFloat 1) [0, 1] None None HNone =
     Inr \<lparr>c_d = 1, c_m = 1, c_f = make_vector_fn linear_drift,
          c_G = GFun (make_matrix_fn scalar_noise), c_dtype = Float64, c_y0 = [1],
          c_tspan = [0, 1], c_dW = None, c_IJ = None\<rparr> \<and>
   fn_name (make_vector_fn linear_drift) = ''f'' \<and>
   fn_name (make_matrix_fn scalar_noise) = ''G'' \<and>
   call (make_vector_fn linear_drift) (Vec [3]) 0 = Vec [3] \<and>
   call (make_matrix_fn scalar_noise) (Vec [3]) 0 = Mat [[1 / 2]]"
proof -
  have e: "check_args linear_drift (GFun scalar_noise) (Y0Scalar PyFloat 1) [0, 1] None None HNone =
     Inr \<lparr>c_d = 1, c_m = 1, c_f = make_vector_fn linear_drift,
          c_G = GFun (make_matrix_fn scalar_noise), c_dtype = Float64, c_y0 = [1],
          c_tspan = [0, 1], c_dW = None, c_IJ = None\<rparr>"
    by (simp add: eval_defs numtype_def make_vector_fn_def make_matrix_fn_def)
  have f: "call linear_drift (Number 3) 0 = Number 3"
    by (simp add: linear_drift_def)
  have g: "call scalar_noise (Number 3) 0 = Number (1 / 2)"
    by (simp add: scalar_noise_def)
  from C4_scalar_promotion [OF e] f g show ?thesis
    using e by (simp add: linear_drift_def scalar_noise_def)
qed

text \<open>
  Claim C4 as stated ("the element type is the original numeric type of \<open>y0\<close>, integer
  types included") fails for the integer \<open>1\<close>: the element type is \<^verbatim>\<open>float64\<close>.
\<close>

theorem C4_integer_scalar_counterexample:
  "map_sum id c_dtype
     (check_args linear_drift (GFun scalar_noise) (Y0Scalar PyInt 1) [0, 1] None None HNone) =
     Inr Float64 \<and>
   np_dtype PyInt \<noteq> Float64"
  by (simp add: eval_defs numtype_def make_vector_fn_def make_matrix_fn_def)

section \<open>What stratKP2iS does not support\<close>

text \<open>
  Claim C9: \<open>stratKP2iS\<close> called with a complex-valued \<open>y0\<close>, or with \<open>G\<close> given as a
  sequence of column functions, raises an error at entry: the result is the error of the
  missing solver, the error of the validation, or the \<^verbatim>\<open>SDEValueError\<close> of lines 815 and
  817, and it is fixed before the loop over the time steps is reached.
\<close>

theorem C9_stratKP2iS_rejects:
  assumes "is_GSeq G \<or> iscomplexobj y0"
  shows "stratKP2iS deltaW scipy f G y0 tspan Jmethod gam al1 al2 rtol dW J normalized =
     (case scipy of
        None \<Rightarrow> Inl Error
      | Some fsolve \<Rightarrow>
          (case check_args f G y0 tspan dW J HNone of
             Inl e \<Rightarrow> Inl e
           | Inr c \<Rightarrow> Inl (SDEValueError (if is_GSeq G then GNotFunction else NoComplex))))"
proof (cases scipy)
  case None
  then show ?thesis by (simp add: stratKP2iS_def)
next
  case (Some fsolve)
  show ?thesis
  proof (cases "check_args f G y0 tspan dW J HNone")
    case (Inl e)
    with Some show ?thesis by (simp add: stratKP2iS_def)
  next
    case (Inr c)
    note k = promote_scalar_kind[OF check_args_InrD(3)[OF Inr]]
    show ?thesis
    proof (cases "c_G c")
      case (GSeq gs)
      with k Some Inr show ?thesis by (simp add: stratKP2iS_def)
    next
      case (GFun g)
      with k assms have "c_dtype c = Complex128" by (cases G) auto
      with GFun k Some Inr show ?thesis by (simp add: stratKP2iS_def)
    qed
  qed
qed

theorem C9_stratKP2iS_rejects_witness:
  "(is_GSeq (GSeq [Some zero_drift]) \<or> iscomplexobj (Y0Array Float64 [2])) \<and>
   stratKP2iS no_wiener (Some no_solver) zero_drift (GSeq [Some zero_drift]) (Y0Array Float64 [2])
     [0, 1] no_ij None None None (1 / 10000) None None True = Inl (SDEValueError GNotFunction) \<and>
   (is_GSeq (GFun zero_noise) \<or> iscomplexobj (Y0Array Complex128 [\<i>])) \<and>
   stratKP2iS no_wiener (Some no_solver) zero_drift (GFun zero_noise) (Y0Array Complex128 [\<i>])
     [0, 1] no_ij None None None (1 / 10000) None None True = Inl (SDEValueError NoComplex)"
  using C9_stratKP2iS_rejects [of "GSeq [Some zero_drift]" "Y0Array Float64 [2]" no_wiener
          "Some no_solver" zero_drift "[0, 1]" no_ij None None None "1 / 10000" None None True]
        C9_stratKP2iS_rejects [of "GFun zero_noise" "Y0Array Complex128 [\<i>]" no_wiener
          "Some no_solver" zero_drift "[0, 1]" no_ij None None None "1 / 10000" None None True]
  by (simp add: eval_defs)

section \<open>The implicit Euler family\<close>

lemma then_do_assoc: "then_do (then_do r k) k' = then_do r (\<lambda>a. then_do (k a) k')"
  by (cases r) simp_all

lemma setitem_again:
  "setitem xs i a = Inr xs' \<Longrightarrow> setitem xs' i b = setitem xs i b"
  by (auto simp: setitem_def Let_def split: if_splits)

lemma setitem_fails:
  "setitem xs i a = Inl e \<Longrightarrow> setitem xs i b = Inl e"
  by (auto simp: setitem_def Let_def split: if_splits)

lemma record_row_again:
  assumes "record_row xs n k a = Inr xs'"
  shows "record_row xs' n k b = record_row xs n k b"
proof (cases "int n mod k = 0")
  case False
  with assms show ?thesis by (simp add: record_row_def)
next
  case True
  show ?thesis
  proof (cases "rec_index (int n) k")
    case (Inl e)
    with True show ?thesis by (simp add: record_row_def)
  next
    case (Inr i)
    with True assms have "setitem xs i a = Inr xs'" by (simp add: record_row_def)
    from setitem_again[OF this] True Inr show ?thesis by (simp add: record_row_def)
  qed
qed

lemma record_row_fails:
  assumes "record_row xs n k a = Inl e"
  shows "record_row xs n k b = Inl e"
proof (cases "int n mod k = 0")
  case False
  with assms show ?thesis by (simp add: record_row_def)
next
  case True
  show ?thesis
  proof (cases "rec_index (int n) k")
    case (Inl e')
    with True assms show ?thesis by (simp add: record_row_def)
  next
    case (Inr i)
    with True assms have "setitem xs i a = Inl e" by (simp add: record_row_def)
    from setitem_fails[OF this] True Inr show ?thesis by (simp add: record_row_def)
  qed
qed

lemma implicit_step_GFun:
  assumes "mode \<in> {''implicit'', ''semi_implicit_drift'', ''semi_implicit_diffusion''}"
  shows "implicit_step f (GFun g) h normalized k mode dt n yn z tn dWn norms =
     then_do (record_row norms n k (astype dt (of_real (la_norm (Phi mode f g h yn tn dWn z)))))
       (\<lambda>norms'. Inr (renormalize normalized (Phi mode f g h yn tn dWn z), norms'))"
  using assms
  by (auto simp: implicit_step_def Phi_def call_G_def renormalize_def Let_def)

lemma implicit_body_GFun:
  assumes "mode \<in> {''implicit'', ''semi_implicit_drift'', ''semi_implicit_diffusion''}"
  shows "itoImplicitEuler_body f (GFun g) tspan dW h normalized k mode dt n (yn, y, norms) =
     (let P = Phi mode f g h yn (tspan ! n) (dW ! n);
          p = P (renormalize normalized (P (renormalize normalized (P yn))))
      in then_do (record_row norms n k (astype dt (of_real (la_norm p)))) (\<lambda>norms'.
         then_do (record_row y n k (map (astype dt) (renormalize normalized p))) (\<lambda>y'.
         Inr (renormalize normalized p, y', norms'))))"
proof -
  define P where "P = Phi mode f g h yn (tspan ! n) (dW ! n)"
  define a where "a = astype dt (of_real (la_norm (P yn)))"
  show ?thesis
  proof (cases "record_row norms n k a")
    case (Inl e)
    from record_row_fails[OF Inl] Inl show ?thesis
      by (simp add: itoImplicitEuler_body_def implicit_step_GFun[OF assms] Let_def P_def a_def)
  next
    case (Inr n1)
    define b where "b = astype dt (of_real (la_norm (P (renormalize normalized (P yn)))))"
    obtain n2 where n2: "record_row norms n k b = Inr n2"
      using Inr record_row_fails[of norms n k b _ a] by (cases "record_row norms n k b") auto
    have r2: "record_row n1 n k b = Inr n2"
      using record_row_again[OF Inr] n2 by simp
    have r3: "record_row n2 n k c = record_row norms n k c" for c
      using record_row_again[OF n2] by simp
    show ?thesis
      using Inr r2 r3
      by (simp add: itoImplicitEuler_body_def implicit_step_GFun[OF assms] Let_def P_def a_def b_def
          then_do_assoc)
  qed
qed

text \<open>
  The integrator as a recurrence. For an input that passes the validation, with \<open>G\<close> a
  function and one of the three modes, \<open>itoImplicitEuler\<close> allocates \<open>y\<close> and \<open>norms\<close>,
  stores \<open>y0\<close> in row \<open>0\<close> and runs, for \<open>n = 0, ..., N-2\<close> in turn, the step that
  records the norm of the last pass and the state \<open>implicit_state (n+1)\<close>, with \<open>h\<close> the
  grid step, \<open>dW\<close> the increments of the call and the \<open>normalized\<close> flag of the call.
\<close>

lemma for_loop_upt_tracked:
  assumes eq: "\<And>n r. b1 n (st n, r) = b2 n (st n, r)"
    and nxt: "\<And>n r s'. b2 n (st n, r) = Inr s' \<Longrightarrow> fst s' = st (Suc n)"
  shows "for_loop [i..<j] b1 (st i, r) = for_loop [i..<j] b2 (st i, r)"
proof (induction "j - i" arbitrary: i r)
  case 0
  then show ?case by simp
next
  case (Suc d)
  then have ij: "i < j" and d: "d = j - Suc i" by simp_all
  from ij have u: "[i..<j] = i # [Suc i..<j]" by (rule upt_conv_Cons)
  show ?case
  proof (cases "b2 i (st i, r)")
    case (Inl e)
    with eq[of i r] show ?thesis by (simp add: u)
  next
    case (Inr s')
    from nxt[OF Inr] obtain r' where s': "s' = (st (Suc i), r')" by (cases s') auto
    from Suc.hyps(1)[OF d, of r'] eq[of i r] Inr s' show ?thesis by (simp add: u)
  qed
qed

lemma setitem_nth0: "setitem xs 0 v = Inr xs' \<Longrightarrow> xs' ! 0 = v"
  by (auto simp: setitem_def Let_def split: if_splits)

lemma implicit_body_tracked:
  assumes "mode \<in> {''implicit'', ''semi_implicit_drift'', ''semi_implicit_diffusion''}"
  shows "itoImplicitEuler_body f (GFun g) tspan dW h normalized k mode dt n
           (implicit_state mode f g h tspan dW normalized y0 n, r) =
         implicit_record_step mode f g h tspan dW normalized y0 k dt n
           (implicit_state mode f g h tspan dW normalized y0 n, r)"
  by (cases r)
     (simp add: implicit_body_GFun[OF assms] implicit_record_step_def last_pass_def pass_map_def
        renormalize_def unit_sphere_def Let_def)

lemma implicit_record_step_fst:
  "implicit_record_step mode f g h tspan dW normalized y0 k dt n (yn, r) = Inr s' \<Longrightarrow>
   fst s' = implicit_state mode f g h tspan dW normalized y0 (Suc n)"
  by (cases r) (auto simp: implicit_record_step_def then_do_Inr)

lemma itoImplicitEuler_recurrence:
  assumes c: "check_args f G y0 tspan dW None HNone = Inr c"
    and g: "c_G c = GFun g"
    and mode: "mode \<in> {''implicit'', ''semi_implicit_drift'', ''semi_implicit_diffusion''}"
  shows "itoImplicitEuler deltaW f G y0 tspan dW normalized k mode =
     then_do (rec_index (int (length tspan)) k) (\<lambda>N_record.
     then_do (elem_type c) (\<lambda>dt.
     then_do (zeros N_record (c_d c)) (\<lambda>y.
     then_do (zeros1 N_record) (\<lambda>norms.
     then_do (setitem y 0 (map (astype dt) (c_y0 c))) (\<lambda>y.
     then_do (for_loop [0..<length tspan - 1]
                (implicit_record_step mode (c_f c) g (grid_step tspan) tspan (increments deltaW c)
                   normalized (map (astype dt) (c_y0 c)) k dt)
                (map (astype dt) (c_y0 c), y, norms))
       (\<lambda>(y_next, y, norms). Inr (y, norms)))))))"
proof -
  note ts = check_args_InrD(10)[OF c]
  define h where "h = grid_step tspan"
  define W where "W = increments deltaW c"
  have hW: "(tspan ! (length tspan - 1) - tspan ! 0) / real (length tspan - 1) = h"
    "(case c_dW c of None \<Rightarrow> deltaW (length tspan - 1) (c_m c) h | Some a \<Rightarrow> a) = W"
    by (simp_all add: h_def W_def grid_step_def increments_def ts cong: option.case_cong)
  have loop: "for_loop [0..<length tspan - 1]
        (itoImplicitEuler_body (c_f c) (GFun g) tspan W h normalized k mode dt) (y ! 0, y, norms) =
      for_loop [0..<length tspan - 1]
        (implicit_record_step mode (c_f c) g h tspan W normalized s0 k dt) (s0, y, norms)"
    if "y ! 0 = s0" for y norms dt s0
  proof -
    have "for_loop [0..<length tspan - 1]
        (itoImplicitEuler_body (c_f c) (GFun g) tspan W h normalized k mode dt)
        (implicit_state mode (c_f c) g h tspan W normalized s0 0, y, norms) =
      for_loop [0..<length tspan - 1]
        (implicit_record_step mode (c_f c) g h tspan W normalized s0 k dt)
        (implicit_state mode (c_f c) g h tspan W normalized s0 0, y, norms)"
      by (rule for_loop_upt_tracked) (auto simp: implicit_body_tracked[OF mode] dest: implicit_record_step_fst)
    with that show ?thesis by simp
  qed
  have mm: "(mode \<notin> set [''implicit'', ''semi_implicit_drift'', ''semi_implicit_diffusion'']) = False"
    using mode by auto
  have unf: "itoImplicitEuler deltaW f G y0 tspan dW normalized k mode =
     then_do (rec_index (int (length tspan)) k) (\<lambda>N_record.
     then_do (elem_type c) (\<lambda>dt.
     then_do (zeros N_record (c_d c)) (\<lambda>y.
     then_do (zeros1 N_record) (\<lambda>norms.
     then_do (setitem y 0 (map (astype dt) (c_y0 c))) (\<lambda>y.
     then_do (for_loop [0..<length tspan - 1]
                (itoImplicitEuler_body (c_f c) (GFun g) tspan W h normalized k mode dt)
                (y ! 0, y, norms))
       (\<lambda>(y_next, y, norms). Inr (y, norms)))))))"
    unfolding itoImplicitEuler_def c then_do_Inr_simp mm if_False Let_def g ts hW ..
  show ?thesis
  proof (cases "rec_index (int (length tspan)) k")
    case (Inl e)
    then show ?thesis by (simp add: unf)
  next
    case Nr: (Inr N_record)
    show ?thesis
    proof (cases "elem_type c")
      case (Inl e)
      then show ?thesis using Nr by (simp add: unf)
    next
      case dt: (Inr dt)
      show ?thesis
      proof (cases "zeros N_record (c_d c)")
        case (Inl e)
        then show ?thesis using Nr dt by (simp add: unf)
      next
        case z: (Inr y)
        show ?thesis
        proof (cases "zeros1 N_record")
          case (Inl e)
          then show ?thesis using Nr dt z by (simp add: unf)
        next
          case z1: (Inr norms)
          show ?thesis
          proof (cases "setitem y 0 (map (astype dt) (c_y0 c))")
            case (Inl e)
            then show ?thesis using Nr dt z z1 by (simp add: unf)
          next
            case (Inr y')
            from setitem_nth0[OF Inr] have "y' ! 0 = map (astype dt) (c_y0 c)" .
            note l = loop[OF this]
            show ?thesis
              unfolding unf Nr dt z z1 Inr then_do_Inr_simp l unfolding h_def W_def ..
          qed
        qed
      qed
    qed
  qed
qed

lemma la_norm_single: "la_norm [x] = cmod x"
  by (simp add: la_norm_def)

lemmas implicit_eval_defs = implicit_record_step_def last_pass_def pass_map_def Phi_def unit_sphere_def grid_step_def
  increments_def la_norm_single linear_noise_def passes_nonzero_def eval_defs upt_rec eval_nat_numeral

text \<open>
  Claim C7: with \<open>normalized=False\<close>, each step \<open>n\<close> of \<open>itoImplicitEuler\<close> computes
  \<open>y_(n+1)\<close> by exactly three applications of the step map \<open>Phi\<close> of its mode, starting
  from \<open>y_n\<close>: the first application is the explicit Euler-Maruyama estimate, two more
  follow, and nothing is tested for convergence. The result of the integrator is the
  loop over the steps \<open>0, ..., N-2\<close> that records, for the state sequence
  \<open>y_(n+1) = Phi (Phi (Phi y_n))\<close>, the norm of \<open>y_(n+1)\<close> and \<open>y_(n+1)\<close> itself.
\<close>

theorem C7_itoImplicitEuler_three_passes:
  assumes c: "check_args f G y0 tspan dW None HNone = Inr c"
    and g: "c_G c = GFun g"
    and mode: "mode \<in> {''implicit'', ''semi_implicit_drift'', ''semi_implicit_diffusion''}"
  shows "itoImplicitEuler deltaW f G y0 tspan dW False k mode =
     then_do (rec_index (int (length tspan)) k) (\<lambda>N_record.
     then_do (elem_type c) (\<lambda>dt.
     then_do (zeros N_record (c_d c)) (\<lambda>y.
     then_do (zeros1 N_record) (\<lambda>norms.
     then_do (setitem y 0 (map (astype dt) (c_y0 c))) (\<lambda>y.
     then_do (for_loop [0..<length tspan - 1]
                (implicit_record_step mode (c_f c) g (grid_step tspan) tspan (increments deltaW c)
                   False (map (astype dt) (c_y0 c)) k dt)
                (map (astype dt) (c_y0 c), y, norms))
       (\<lambda>(y_next, y, norms). Inr (y, norms))))))) \<and>
     (\<forall>s0 n.
        let yn = implicit_state mode (c_f c) g (grid_step tspan) tspan (increments deltaW c) False s0 n;
            P = Phi mode (c_f c) g (grid_step tspan) yn (tspan ! n) (increments deltaW c ! n)
        in implicit_state mode (c_f c) g (grid_step tspan) tspan (increments deltaW c) False s0 (Suc n) =
             P (P (P yn)) \<and>
           last_pass mode (c_f c) g (grid_step tspan) tspan (increments deltaW c) False s0 n =
             P (P (P yn)) \<and>
           P yn = euler_maruyama (c_f c) g (grid_step tspan) yn (tspan ! n) (increments deltaW c ! n))"
proof -
  have "Phi mode f' g h yn tn dWn yn = euler_maruyama f' g h yn tn dWn" for f' h yn tn dWn
    using mode by (auto simp: Phi_def euler_maruyama_def)
  then show ?thesis
    by (simp add: itoImplicitEuler_recurrence[OF c g mode] last_pass_def pass_map_def Let_def)
qed

text \<open>
  The equation \<open>dy = y dt + y dW\<close> from \<open>y0 = [1]\<close> on the grid \<open>[0, 1, 2]\<close> with
  increments \<open>1/2\<close>: the three modes give three different trajectories.
\<close>

theorem C7_itoImplicitEuler_three_passes_witness:
  "check_args linear_drift (GFun linear_noise) (Y0Array Float64 [1]) [0, 1, 2]
     (Some (NdArray [[1 / 2], [1 / 2]])) None HNone =
     Inr \<lparr>c_d = 1, c_m = 1, c_f = linear_drift, c_G = GFun linear_noise, c_dtype = Float64,
          c_y0 = [1], c_tspan = [0, 1, 2], c_dW = Some [[1 / 2], [1 / 2]], c_IJ = None\<rparr> \<and>
   itoImplicitEuler no_wiener linear_drift (GFun linear_noise) (Y0Array Float64 [1]) [0, 1, 2]
     (Some (NdArray [[1 / 2], [1 / 2]])) False 1 ''semi_implicit_diffusion'' =
     Inr ([[29 / 8], [841 / 64], [0]], [29 / 8, 841 / 64, 0]) \<and>
   itoImplicitEuler no_wiener linear_drift (GFun linear_noise) (Y0Array Float64 [1]) [0, 1, 2]
     (Some (NdArray [[1 / 2], [1 / 2]])) False 1 ''semi_implicit_drift'' =
     Inr ([[11 / 2], [121 / 4], [0]], [11 / 2, 121 / 4, 0]) \<and>
   itoImplicitEuler no_wiener linear_drift (GFun linear_noise) (Y0Array Float64 [1]) [0, 1, 2]
     (Some (NdArray [[1 / 2], [1 / 2]])) False 1 ''implicit'' =
     Inr ([[65 / 8], [4225 / 64], [0]], [65 / 8, 4225 / 64, 0])"
proof -
  have c: "check_args linear_drift (GFun linear_noise) (Y0Array Float64 [1]) [0, 1, 2]
     (Some (NdArray [[1 / 2], [1 / 2]])) None HNone =
     Inr \<lparr>c_d = 1, c_m = 1, c_f = linear_drift, c_G = GFun linear_noise, c_dtype = Float64,
          c_y0 = [1], c_tspan = [0, 1, 2], c_dW = Some [[1 / 2], [1 / 2]], c_IJ = None\<rparr>"
    by (simp add: eval_defs linear_noise_def)
  note t = C7_itoImplicitEuler_three_passes [OF c, of linear_noise _ no_wiener 1, THEN conjunct1]
  have 1: "itoImplicitEuler no_wiener linear_drift (GFun linear_noise) (Y0Array Float64 [1]) [0, 1, 2]
     (Some (NdArray [[1 / 2], [1 / 2]])) False 1 ''semi_implicit_diffusion'' =
     Inr ([[29 / 8], [841 / 64], [0]], [29 / 8, 841 / 64, 0])"
    by (subst t) (simp_all add: implicit_eval_defs)
  have 2: "itoImplicitEuler no_wiener linear_drift (GFun linear_noise) (Y0Array Float64 [1]) [0, 1, 2]
     (Some (NdArray [[1 / 2], [1 / 2]])) False 1 ''semi_implicit_drift'' =
     Inr ([[11 / 2], [121 / 4], [0]], [11 / 2, 121 / 4, 0])"
    by (subst t) (simp_all add: implicit_eval_defs)
  have 3: "itoImplicitEuler no_wiener linear_drift (GFun linear_noise) (Y0Array Float64 [1]) [0, 1, 2]
     (Some (NdArray [[1 / 2], [1 / 2]])) False 1 ''implicit'' =
     Inr ([[65 / 8], [4225 / 64], [0]], [65 / 8, 4225 / 64, 0])"
    by (subst t) (simp_all add: implicit_eval_defs)
  from c 1 2 3 show ?thesis by simp
qed



section \<open>Validation errors\<close>

lemma fold_min_max:
  assumes "ds \<noteq> []"
  shows "fold min (tl ds) (hd ds) = Min (set ds)" and "fold max (tl ds) (hd ds) = Max (set ds)"
proof -
  from assms obtain x xs where ds: "ds = x # xs" by (cases ds) auto
  show "fold min (tl ds) (hd ds) = Min (set ds)"
    unfolding ds by (simp only: list.sel Min.set_eq_fold)
  show "fold max (tl ds) (hd ds) = Max (set ds)"
    unfolding ds by (simp only: list.sel Max.set_eq_fold)
qed

lemma diff_nonempty: "2 \<le> length ts \<Longrightarrow> diff ts \<noteq> []"
proof -
  assume "2 \<le> length ts"
  then obtain a b r where "ts = a # b # r"
    by (cases ts; cases "tl ts") auto
  then show ?thesis by (simp add: diff_def)
qed

lemma uniform_grid_fold:
  "2 \<le> length tspan \<Longrightarrow>
   isclose (fold min (tl (diff tspan)) (hd (diff tspan))) (fold max (tl (diff tspan)) (hd (diff tspan)))
     = uniform_grid tspan"
  by (simp add: uniform_grid_def fold_min_max[OF diff_nonempty])

lemma check_dW_None [simp]: "check_dW None N m = Inr ()"
  by (simp add: check_dW_def)

lemma check_IJ_None [simp]: "check_IJ None N m = Inr ()"
  by (simp add: check_IJ_def)

lemma check_dW_wrong: "check_dW dW N m = (if wrong_dW dW N m then Inl (SDEValueError (DWShape m)) else Inr ())"
  by (simp add: check_dW_def wrong_dW_def split: option.splits arrarg.splits)

lemma check_IJ_wrong: "check_IJ IJ N m = (if wrong_IJ IJ N m then Inl (SDEValueError (IJShape m)) else Inr ())"
  by (simp add: check_IJ_def wrong_IJ_def split: option.splits arrarg.splits)

lemma check_Hfun_HNone [simp]: "check_Hfun HNone d m y0 t0 = Inr ()"
  by (simp add: check_Hfun_def)

lemma check_args_from_None:
  assumes "check_args f G y0 tspan None None HNone = Inr c"
  shows "check_args f G y0 tspan dW IJ H =
     then_do (check_dW dW (length tspan) (c_m c)) (\<lambda>_.
     then_do (check_IJ IJ (length tspan) (c_m c)) (\<lambda>_.
     then_do (check_Hfun H (c_d c) (c_m c) (c_y0 c) (tspan ! 0)) (\<lambda>_.
     Inr (c\<lparr>c_dW := the_array dW, c_IJ := the_array IJ\<rparr>))))"
proof -
  note d = check_args_InrD[OF assms]
  have c: "c\<lparr>c_dW := the_array dW, c_IJ := the_array IJ\<rparr> =
      \<lparr>c_d = length (c_y0 c), c_m = c_m c, c_f = c_f c, c_G = c_G c, c_dtype = c_dtype c,
       c_y0 = c_y0 c, c_tspan = tspan, c_dW = the_array dW, c_IJ = the_array IJ\<rparr>"
    using d(4,10) by (cases c) simp
  have l: "len (call (c_f c) (Vec (c_y0 c)) (tspan ! 0)) = Inr (length (c_y0 c))"
    using d(5) d(4) by simp
  have g: "check_G (c_G c) (length (c_y0 c)) (c_y0 c) (tspan ! 0) = Inr (c_m c)"
    using d(6) d(4) by simp
  have n: "\<not> length tspan < 2"
    using d(1) by simp
  show ?thesis
    unfolding c check_args_def
    by (simp only: n d(2) d(3) d(4) l g if_False not_True_eq_False not_not then_do_Inr_simp
        prod.case Let_def refl if_True)
qed

lemma validation_failure_check_args:
  assumes "validation_failure f G y0 tspan dW IJ e"
  shows "check_args f G y0 tspan dW IJ H = Inl (SDEValueError e)"
proof -
  from assms have N: "2 \<le> length tspan" by (simp add: validation_failure_def)
  show ?thesis
  proof (cases "uniform_grid tspan")
    case False
    with assms have e: "e = EquallySpaced" by (simp add: validation_failure_def)
    from False N have "\<not> isclose (fold min (tl (diff tspan)) (hd (diff tspan)))
        (fold max (tl (diff tspan)) (hd (diff tspan)))"
      by (simp add: uniform_grid_fold)
    with N e show ?thesis
      by (simp add: check_args_def)
  next
    case True
    with assms have v: "case check_args f G y0 tspan None None HNone of
             Inl err \<Rightarrow> False
           | Inr c \<Rightarrow>
               if wrong_dW dW (length tspan) (c_m c) then e = DWShape (c_m c)
               else wrong_IJ IJ (length tspan) (c_m c) \<and> e = IJShape (c_m c)"
      by (simp add: validation_failure_def)
    then obtain c where c: "check_args f G y0 tspan None None HNone = Inr c"
      by (cases "check_args f G y0 tspan None None HNone") simp_all
    note u = check_args_from_None[OF c, of dW IJ H]
    show ?thesis
    proof (cases "wrong_dW dW (length tspan) (c_m c)")
      case True
      with v c have "e = DWShape (c_m c)" by simp
      with True show ?thesis by (simp add: u check_dW_wrong)
    next
      case False
      with v c have "wrong_IJ IJ (length tspan) (c_m c)" "e = IJShape (c_m c)" by simp_all
      with False show ?thesis by (simp add: u check_dW_wrong check_IJ_wrong)
    qed
  qed
qed

text \<open>
  Claim C6, as the code has it: on a grid of at least two points, every integrator
  raises \<^verbatim>\<open>SDEValueError\<close> from the validation, before anything else is done, when the
  grid is not uniform, and, on a uniform grid with \<open>y0\<close>, \<open>f\<close> and \<open>G\<close> that pass their
  checks, when a supplied \<open>dW\<close> or (for the integrators that take one) a supplied \<open>I\<close>
  or \<open>J\<close> has the wrong shape, with the message that names the expected shape. The
  integrators without a parameter for \<open>I\<close> or \<open>J\<close> pass \<^verbatim>\<open>None\<close> for it, and the
  dispatchers pass \<^verbatim>\<open>None\<close> for \<open>dW\<close> as well.
\<close>

theorem C6_validation_errors:
  assumes "validation_failure f G y0 tspan dW IJ e"
  shows "itoMilstein deltaW f G H y0 tspan Imethod dW IJ normalized downsample = Inl (SDEValueError e) \<and>
         numItoMilstein deltaW f G y0 tspan Imethod dW IJ normalized downsample eps = Inl (SDEValueError e) \<and>
         itoSRI2 deltaW f G y0 tspan Imethod dW IJ normalized downsample = Inl (SDEValueError e) \<and>
         stratSRS2 deltaW f G y0 tspan Imethod dW IJ normalized = Inl (SDEValueError e) \<and>
         stratKP2iS deltaW (Some fsolve) f G y0 tspan Imethod gam al1 al2 rtol dW IJ normalized =
           Inl (SDEValueError e) \<and>
         (IJ = None \<longrightarrow>
            itoEuler deltaW f G y0 tspan dW normalized downsample = Inl (SDEValueError e) \<and>
            itoImplicitEuler deltaW f G y0 tspan dW normalized downsample implicit_type =
              Inl (SDEValueError e) \<and>
            itoQuasiImplicitEuler deltaW f G y0 tspan dW normalized downsample implicit_ports =
              Inl (SDEValueError e) \<and>
            stratHeun deltaW f G y0 tspan dW normalized = Inl (SDEValueError e)) \<and>
         (dW = None \<and> IJ = None \<longrightarrow>
            itoint deltaW Imethod f G y0 tspan normalized = Inl (SDEValueError e) \<and>
            stratint deltaW Imethod f G y0 tspan normalized = Inl (SDEValueError e))"
proof -
  note c = validation_failure_check_args[OF assms]
  have 1: "itoMilstein deltaW f G H y0 tspan Imethod dW IJ normalized downsample = Inl (SDEValueError e)"
    by (simp add: itoMilstein_def c)
  have 2: "numItoMilstein deltaW f G y0 tspan Imethod dW IJ normalized downsample eps = Inl (SDEValueError e)"
    by (simp add: numItoMilstein_def c)
  have 3: "Roessler2010_SRK2 deltaW f G y0 tspan Imethod dW IJ normalized k = Inl (SDEValueError e)" for k
    by (simp add: Roessler2010_SRK2_def c)
  have 4: "stratKP2iS deltaW (Some fsolve) f G y0 tspan Imethod gam al1 al2 rtol dW IJ normalized =
           Inl (SDEValueError e)"
    by (simp add: stratKP2iS_def c)
  have 5: "itoEuler deltaW f G y0 tspan dW normalized downsample = Inl (SDEValueError e)" if "IJ = None"
    using c[of HNone] that by (simp add: itoEuler_def)
  have 6: "itoImplicitEuler deltaW f G y0 tspan dW normalized downsample implicit_type =
              Inl (SDEValueError e)" if "IJ = None"
    using c[of HNone] that by (simp add: itoImplicitEuler_def)
  have 7: "itoQuasiImplicitEuler deltaW f G y0 tspan dW normalized downsample implicit_ports =
              Inl (SDEValueError e)" if "IJ = None"
    using c[of HNone] that by (simp add: itoQuasiImplicitEuler_def)
  have 8: "stratHeun deltaW f G y0 tspan dW normalized = Inl (SDEValueError e)" if "IJ = None"
    using c[of HNone] that by (simp add: stratHeun_def)
  have 9: "itoint deltaW Imethod f G y0 tspan normalized = Inl (SDEValueError e)"
    "stratint deltaW Imethod f G y0 tspan normalized = Inl (SDEValueError e)" if "dW = None" "IJ = None"
    using c[of HNone] that by (simp_all add: itoint_def stratint_def)
  show ?thesis
    using 1 2 3 4 5 6 7 8 9 by (simp add: itoSRI2_def stratSRS2_def)
qed

theorem C6_validation_errors_witness:
  "validation_failure unit_drift (GFun zero_noise) (Y0Array Float64 [0]) [0, 1]
     (Some (NdArray [[0], [0]])) None (DWShape 1) \<and>
   itoEuler no_wiener unit_drift (GFun zero_noise) (Y0Array Float64 [0]) [0, 1]
     (Some (NdArray [[0], [0]])) False 1 = Inl (SDEValueError (DWShape 1)) \<and>
   stratHeun no_wiener unit_drift (GFun zero_noise) (Y0Array Float64 [0]) [0, 1]
     (Some (NdArray [[0], [0]])) False = Inl (SDEValueError (DWShape 1)) \<and>
   itoSRI2 no_wiener unit_drift (GFun zero_noise) (Y0Array Float64 [0]) [0, 1] no_ij
     (Some (NdArray [[0], [0]])) None False 1 = Inl (SDEValueError (DWShape 1)) \<and>
   validation_failure unit_drift (GFun zero_noise) (Y0Array Float64 [0]) [0, 1, 3]
     None None EquallySpaced \<and>
   itoint no_wiener no_ij unit_drift (GFun zero_noise) (Y0Array Float64 [0]) [0, 1, 3] False =
     Inl (SDEValueError EquallySpaced) \<and>
   validation_failure unit_drift (GFun zero_noise) (Y0Array Float64 [0]) [0, 1]
     None (Some (NdArray [[[0, 0]]])) (IJShape 1) \<and>
   itoMilstein no_wiener unit_drift (GFun zero_noise) HNone (Y0Array Float64 [0]) [0, 1] no_ij
     None (Some (NdArray [[[0, 0]]])) False 1 = Inl (SDEValueError (IJShape 1))"
proof -
  have v1: "validation_failure unit_drift (GFun zero_noise) (Y0Array Float64 [0]) [0, 1]
     (Some (NdArray [[0], [0]])) None (DWShape 1)"
    by (simp add: validation_failure_def uniform_grid_def wrong_dW_def eval_defs)
  have v2: "validation_failure unit_drift (GFun zero_noise) (Y0Array Float64 [0]) [0, 1, 3]
     None None EquallySpaced"
    by (simp add: validation_failure_def uniform_grid_def diff_def isclose_def)
  have v3: "validation_failure unit_drift (GFun zero_noise) (Y0Array Float64 [0]) [0, 1]
     None (Some (NdArray [[[0, 0]]])) (IJShape 1)"
    by (simp add: validation_failure_def uniform_grid_def wrong_dW_def wrong_IJ_def eval_defs)
  show ?thesis
    using v1 v2 v3 C6_validation_errors [OF v1] C6_validation_errors [OF v2]
      C6_validation_errors [OF v3]
    by simp
qed

text \<open>
  Claim C6 as stated fails where an earlier check raises first. On a grid of one point
  the differences are empty and \<^verbatim>\<open>min\<close> raises \<^verbatim>\<open>ValueError\<close>, whatever the shape of
  \<open>dW\<close>; and when \<open>f\<close> returns a vector of the wrong length the message is the one
  about \<open>y0\<close> and \<open>f\<close>, not the one naming the shape of \<open>dW\<close>.
\<close>

theorem C6_earlier_check_counterexample:
  "itoEuler no_wiener unit_drift (GFun zero_noise) (Y0Array Float64 [0]) [0]
     (Some (NdArray [[0], [0]])) False 1 = Inl ValueError \<and>
   itoEuler no_wiener two_drift (GFun zero_noise) (Y0Array Float64 [0]) [0, 1]
     (Some (NdArray [[0], [0]])) False 1 = Inl (SDEValueError IncompatibleShapes)"
  by (simp add: itoEuler_def eval_defs two_drift_def)

section \<open>The two ways of giving the diffusion to the SRK2 kernel\<close>

lemma vec_of_Vec [simp]: "vec_of (Vec xs) = xs"
  by (simp add: vec_of_def Vec_def comp_def)

lemma mat_of_Mat [simp]: "mat_of (Mat M) = M"
  by (simp add: mat_of_def Mat_def comp_def)

lemma shape_of_Vec [simp]: "shape_of (Vec xs) = [length xs]"
  by (cases xs) (simp_all add: Vec_def)

lemma shape_of_Mat: "M \<noteq> [] \<Longrightarrow> shape_of (Mat M) = [length M, length (hd M)]"
  by (cases M) (simp_all add: Mat_def)

lemma length_column [simp]: "length (column M k) = length M"
  by (simp add: column_def)

lemma for_loop_cong:
  "(\<And>n s. n \<in> set ns \<Longrightarrow> b1 n s = b2 n s) \<Longrightarrow> for_loop ns b1 s = for_loop ns b2 s"
  by (induction ns arbitrary: s) (auto split: sum.splits)

lemma eval_columns_all2:
  "list_all2 (\<lambda>go c. \<exists>gk. go = Some gk \<and> call gk (Vec y) t = Vec c \<and> length c = d) gs cols \<Longrightarrow>
   eval_columns gs d y t = Inr cols"
  by (induction rule: list_all2_induct) auto

lemma fill_Gn_valid:
  assumes v: "valid_G g d m dt" and c: "columns_of g gs" and l: "length gs = m"
  shows "fill_Gn gs d dt y t = Inr (mat_of (call g (Vec y) t))"
proof -
  from v obtain M where M: "call g (Vec y) t = Mat M" "length M = d"
    and rows: "list_all (\<lambda>r. length r = m \<and> list_all (\<lambda>x. astype dt x = x) r) M"
    unfolding valid_G_def by blast
  define cols where "cols = map (column M) [0..<m]"
  have "list_all2 (\<lambda>go c. \<exists>gk. go = Some gk \<and> call gk (Vec y) t = Vec c \<and> length c = d) gs cols"
  proof (rule list_all2_all_nthI)
    show "length gs = length cols" by (simp add: cols_def l)
  next
    fix k assume k: "k < length gs"
    with c obtain gk where "gs ! k = Some gk"
      "call gk (Vec y) t = Vec (column (mat_of (call g (Vec y) t)) k)"
      unfolding columns_of_def by blast
    with k l M show "\<exists>gk. gs ! k = Some gk \<and> call gk (Vec y) t = Vec (cols ! k) \<and> length (cols ! k) = d"
      by (simp add: cols_def)
  qed
  then have e: "eval_columns gs d y t = Inr cols"
    by (rule eval_columns_all2)
  have "map (\<lambda>i. map (\<lambda>c. astype dt (c ! i)) cols) [0..<d] = M"
  proof (rule nth_equalityI)
    show "length (map (\<lambda>i. map (\<lambda>c. astype dt (c ! i)) cols) [0..<d]) = length M"
      by (simp add: M)
  next
    fix i assume "i < length (map (\<lambda>i. map (\<lambda>c. astype dt (c ! i)) cols) [0..<d])"
    then have i: "i < d" by simp
    with M rows have r: "length (M ! i) = m" "list_all (\<lambda>x. astype dt x = x) (M ! i)"
      by (auto simp: list_all_length)
    have "map (\<lambda>c. astype dt (c ! i)) cols = M ! i"
    proof (rule nth_equalityI)
      show "length (map (\<lambda>c. astype dt (c ! i)) cols) = length (M ! i)"
        by (simp add: cols_def r)
    next
      fix k assume "k < length (map (\<lambda>c. astype dt (c ! i)) cols)"
      then have k: "k < m" by (simp add: cols_def)
      with r have "astype dt (M ! i ! k) = M ! i ! k" by (simp add: list_all_length)
      with k i M show "map (\<lambda>c. astype dt (c ! i)) cols ! k = M ! i ! k"
        by (simp add: cols_def column_def)
    qed
    with i show "map (\<lambda>i. map (\<lambda>c. astype dt (c ! i)) cols) [0..<d] ! i = M ! i"
      by simp
  qed
  with e M show ?thesis
    by (simp add: fill_Gn_def)
qed

lemma correction_sep_mat:
  assumes c: "columns_of g gs" and k: "k < length gs"
  shows "correction_sep gs H2 H3 sqrth tn1 k Y = correction_mat g H2 H3 sqrth tn1 k Y"
proof -
  from c k obtain gk where "gs ! k = Some gk"
    "\<And>y t. call gk (Vec y) t = Vec (column (mat_of (call g (Vec y) t)) k)"
    unfolding columns_of_def by blast
  then show ?thesis
    by (simp add: correction_sep_def correction_mat_def)
qed

lemma SRK2_body_columns:
  assumes v: "valid_G g d m dt" and c: "columns_of g gs" and l: "length gs = m"
  shows "SRK2_body f (GSeq gs) d m tspan dW I normalized k dt n s =
         SRK2_body f (GFun g) d m tspan dW I normalized k dt n s"
proof -
  have loop: "for_loop [0..<m] (correction_sep gs H2 H3 sqrth tn1) Y =
              for_loop [0..<m] (correction_mat g H2 H3 sqrth tn1) Y" for H2 H3 sqrth tn1 Y
    by (rule for_loop_cong) (simp add: correction_sep_mat[OF c] l)
  show ?thesis
    by (cases s) (simp add: SRK2_body_def fill_Gn_valid[OF v c l] loop Let_def)
qed


lemma check_G_GFun_valid:
  assumes v: "valid_G g d m dt" and d: "0 < d"
  shows "check_G (GFun g) d y0 t0 = Inr m"
proof -
  from v obtain M where M: "call g (Vec y0) t0 = Mat M" "length M = d"
    and rows: "list_all (\<lambda>r. length r = m \<and> list_all (\<lambda>x. astype dt x = x) r) M"
    unfolding valid_G_def by blast
  from M d obtain r rs where rr: "M = r # rs" by (cases M) auto
  with rows have "length r = m" by simp
  with M rr show ?thesis
    by (simp add: check_G_def Mat_def Let_def)
qed

lemma check_columns_valid:
  assumes "list_all (\<lambda>go. \<exists>gk. go = Some gk \<and> shape_of (call gk (Vec y0) t0) = [d]) gs"
  shows "check_columns gs d y0 t0 = Inr ()"
  using assms by (induction gs) auto

lemma check_G_GSeq_valid:
  assumes v: "valid_G g d m dt" and c: "columns_of g gs" and l: "length gs = m"
  shows "check_G (GSeq gs) d y0 t0 = Inr m"
proof -
  from v obtain M where M: "call g (Vec y0) t0 = Mat M" "length M = d"
    unfolding valid_G_def by blast
  have "list_all (\<lambda>go. \<exists>gk. go = Some gk \<and> shape_of (call gk (Vec y0) t0) = [d]) gs"
    unfolding list_all_length
  proof (intro allI impI)
    fix k assume "k < length gs"
    with c obtain gk where "gs ! k = Some gk"
      "call gk (Vec y0) t0 = Vec (column (mat_of (call g (Vec y0) t0)) k)"
      unfolding columns_of_def by blast
    with M show "\<exists>gk. gs ! k = Some gk \<and> shape_of (call gk (Vec y0) t0) = [d]"
      by simp
  qed
  from check_columns_valid[OF this] l show ?thesis
    by (simp add: check_G_def)
qed

lemma check_args_columns:
  assumes v: "valid_G g (length y0) m dt" and c: "columns_of g gs" and l: "length gs = m"
    and d: "y0 \<noteq> []"
  shows "check_args f (GSeq gs) (Y0Array dt y0) tspan dW IJ HNone =
         map_sum id (c_G_update (\<lambda>_. GSeq gs)) (check_args f (GFun g) (Y0Array dt y0) tspan dW IJ HNone)"
proof -
  from d have "0 < length y0" by simp
  note a = check_G_GFun_valid[OF v this] check_G_GSeq_valid[OF v c l]
  show ?thesis
    by (simp add: check_args_def promote_scalar_def a Let_def then_do_def split: sum.splits)
qed

text \<open>
  For an initial state given as a non-empty array, a matrix function \<open>g\<close> that is valid
  for its length and element type, and column functions \<open>gs\<close> of \<open>g\<close>, the kernel
  returns the same result (the same trajectory, or the same error) in both conventions,
  for every noise realization, drawn or supplied.
\<close>

theorem SRK2_columns_equiv:
  assumes v: "valid_G g (length y0) m dt" and c: "columns_of g gs" and l: "length gs = m"
    and d: "y0 \<noteq> []"
  shows "Roessler2010_SRK2 deltaW f (GSeq gs) (Y0Array dt y0) tspan IJmethod dW IJ normalized downsample =
         Roessler2010_SRK2 deltaW f (GFun g) (Y0Array dt y0) tspan IJmethod dW IJ normalized downsample"
proof (cases "check_args f (GFun g) (Y0Array dt y0) tspan dW IJ HNone")
  case (Inl e)
  then show ?thesis
    by (simp add: Roessler2010_SRK2_def check_args_columns[OF v c l d])
next
  case (Inr a)
  note i = check_args_InrD[OF Inr]
  from i(3) have p: "c_G a = GFun g" "c_dtype a = dt" "c_y0 a = y0"
    by (simp_all add: promote_scalar_def)
  from i(6) p i(4) check_G_GFun_valid[OF v, of y0 "tspan ! 0"] d have m: "c_m a = m"
    by simp
  have b: "SRK2_body (c_f a) (GSeq gs) (c_d a) (c_m a) ts w I normalized downsample dt =
           SRK2_body (c_f a) (GFun g) (c_d a) (c_m a) ts w I normalized downsample dt" for ts w I
    by (intro ext SRK2_body_columns) (use v c l p m i(4) in simp_all)
  show ?thesis
    using d by (simp add: Roessler2010_SRK2_def check_args_columns[OF v c l d] Inr p elem_type_def b Let_def
        cong: option.case_cong)
qed

lemma SRK2_columns_equiv_example:
  "valid_G zero_noise (length [1 :: complex]) 1 Float64 \<and>
   columns_of zero_noise [Some zero_drift] \<and>
   Roessler2010_SRK2 no_wiener linear_drift (GSeq [Some zero_drift]) (Y0Array Float64 [1]) [0, 1]
     no_ij (Some (NdArray [[0]])) (Some (NdArray [[[0]]])) False 1 = Inr [[5 / 2], [0]]"
proof -
  have v: "valid_G zero_noise (length [1 :: complex]) 1 Float64"
    by (auto simp: valid_G_def zero_noise_def intro!: exI[of _ "[[0]]"])
  have c: "columns_of zero_noise [Some zero_drift]"
    by (simp add: columns_of_def zero_noise_def zero_drift_def column_def)
  have "Roessler2010_SRK2 no_wiener linear_drift (GFun zero_noise) (Y0Array Float64 [1]) [0, 1]
     no_ij (Some (NdArray [[0]])) (Some (NdArray [[[0]]])) False 1 = Inr [[5 / 2], [0]]"
    by (simp add: Roessler2010_SRK2_def SRK2_body_def correction_mat_def mdot_def mdiv_def
        eval_defs eval_nat_numeral)
  with SRK2_columns_equiv [OF v c] v c show ?thesis
    by simp
qed

text \<open>
  Claim C8: for every valid system and noise realization, the SRK2 kernel returns the same
  trajectory for a matrix function \<open>G\<close> and for the list of its column functions.

  For a plain scalar \<open>y0\<close> the code does not: the validation calls \<open>G\<close> itself
  (line 107) before it looks whether \<open>G\<close> is a function or a sequence (line 117), so
  the scalar equation \<open>dy = y dt + 0 dW\<close> from \<open>y0 = 1.0\<close> is integrated with the
  matrix function and raises \<^verbatim>\<open>TypeError\<close> with the list of its one column function.
\<close>

theorem C8_scalar_y0_column_list_raises:
  "itoSRI2 no_wiener linear_drift (GSeq [Some zero_drift]) (Y0Scalar PyFloat 1) [0, 1] no_ij
     (Some (NdArray [[0]])) (Some (NdArray [[[0]]])) False 1 = Inl TypeError \<and>
   itoSRI2 no_wiener linear_drift (GFun zero_noise) (Y0Scalar PyFloat 1) [0, 1] no_ij
     (Some (NdArray [[0]])) (Some (NdArray [[[0]]])) False 1 = Inr [[5 / 2], [0]]"
  by (simp add: itoSRI2_def Roessler2010_SRK2_def SRK2_body_def correction_mat_def mdot_def mdiv_def
      numtype_def make_vector_fn_def eval_defs eval_nat_numeral)

end
